theory Spec2Isabelle
  imports Main "HOL-Library.Word"
begin

unbundle bit_operations_syntax

text \<open>
  A model of the authentication and authorization core of the task-management API:
  the two stores (models/User.js, models/Task.js) over the tables of
  database/migrate.js, the token functions (utils/jwt.js), and the handlers of the
  auth, user and task controllers. A handler is a function of the store, the
  principal and the request that returns the new store and what was sent. The
  libraries are modelled by what the handlers rely on: the MySQL driver by the
  statements' effect on the tables and the errors it throws, bcryptjs symbolically,
  jsonwebtoken by the HMAC key it derives from a secret and a symbolic tag. Request
  fields that the validation layer requires are
  present and well-formed; optional ones may be \<open>undefined\<close>.
\<close>

section \<open>Values, errors and the environment\<close>

text \<open>
  The two ENUM columns of table \<open>users\<close> and \<open>tasks\<close> (database/migrate.js) are
  datatypes; in JavaScript they travel as the strings given by the \<open>_str\<close> functions.
\<close>

datatype role = RUser | RAdmin

datatype status = Pending | InProgress | Completed | Cancelled

datatype priority = Low | Medium | High | Urgent

fun role_str :: "role \<Rightarrow> string" where
  "role_str RUser = ''user''"
| "role_str RAdmin = ''admin''"

definition role_of_str :: "string \<Rightarrow> role option" where
  "role_of_str s =
     (if s = ''user'' then Some RUser else if s = ''admin'' then Some RAdmin else None)"

fun status_str :: "status \<Rightarrow> string" where
  "status_str Pending = ''pending''"
| "status_str InProgress = ''in_progress''"
| "status_str Completed = ''completed''"
| "status_str Cancelled = ''cancelled''"

definition status_of_str :: "string \<Rightarrow> status option" where
  "status_of_str s =
     (if s = ''pending'' then Some Pending
      else if s = ''in_progress'' then Some InProgress
      else if s = ''completed'' then Some Completed
      else if s = ''cancelled'' then Some Cancelled else None)"

fun priority_str :: "priority \<Rightarrow> string" where
  "priority_str Low = ''low''"
| "priority_str Medium = ''medium''"
| "priority_str High = ''high''"
| "priority_str Urgent = ''urgent''"

definition priority_of_str :: "string \<Rightarrow> priority option" where
  "priority_of_str s =
     (if s = ''low'' then Some Low
      else if s = ''medium'' then Some Medium
      else if s = ''high'' then Some High
      else if s = ''urgent'' then Some Urgent else None)"

text \<open>
  A thrown value: a JavaScript \<open>Error\<close> or \<open>TypeError\<close> with its message, or an error
  of the MySQL driver with its code and message.
\<close>

datatype error =
    JsError string
  | JsTypeError string
  | DriverError string string

fun message :: "error \<Rightarrow> string" where
  "message (JsError m) = m"
| "message (JsTypeError m) = m"
| "message (DriverError c m) = m"

text \<open>\<open>String.prototype.includes\<close>: the needle occurs as a contiguous part.\<close>

fun starts_with :: "string \<Rightarrow> string \<Rightarrow> bool" where
  "starts_with s [] = True"
| "starts_with [] (c # cs) = False"
| "starts_with (x # xs) (c # cs) = (x = c \<and> starts_with xs cs)"

fun includes_str :: "string \<Rightarrow> string \<Rightarrow> bool" where
  "includes_str [] n = (n = [])"
| "includes_str (x # xs) n = (starts_with (x # xs) n \<or> includes_str xs n)"

text \<open>
  \<open>process.env\<close>. A secret that is unset is the empty string (both are falsy in
  JavaScript); lifetimes are in seconds, \<open>None\<close> when the variable is unset.
\<close>

record env =
  JWT_SECRET :: string
  JWT_EXPIRE :: "nat option"
  JWT_REFRESH_SECRET :: string
  JWT_REFRESH_EXPIRE :: "nat option"
  BCRYPT_ROUNDS :: "nat option"

section \<open>The store\<close>

text \<open>
  bcryptjs, symbolically: a hash records its cost factor and the password it was made
  from, and \<open>compare\<close> accepts exactly that password. The random salt is left out.
\<close>

datatype pwhash = Bcrypt nat string

definition bcrypt_hash :: "string \<Rightarrow> nat \<Rightarrow> pwhash" where
  "bcrypt_hash pw rounds = Bcrypt rounds pw"

fun bcrypt_compare :: "string \<Rightarrow> pwhash \<Rightarrow> bool" where
  "bcrypt_compare plain (Bcrypt rounds pw) = (plain = pw)"

text \<open>
  Rows of the two tables of database/migrate.js. Of the timestamp columns only
  \<open>created_at\<close> is kept (it orders the listings). Strings stand for their class under
  the column collation.
\<close>

record user_row =
  u_id :: nat
  u_username :: string
  u_email :: string
  u_password :: pwhash
  u_role :: role
  u_created_at :: nat

record task_row =
  t_id :: nat
  t_title :: string
  t_description :: "string option"
  t_status :: status
  t_priority :: priority
  t_due_date :: "string option"
  t_user_id :: nat
  t_created_at :: nat

record db =
  users :: "user_row list"
  tasks :: "task_row list"
  users_auto_increment :: nat
  tasks_auto_increment :: nat

text \<open>
  A bound parameter of a prepared statement is a string or JavaScript's \<open>undefined\<close>
  (\<open>None\<close>). \<open>query\<close> of config/database.js hands the parameters to the driver's
  \<open>execute\<close>, which throws a \<open>TypeError\<close> before any SQL runs when one of them is
  \<open>undefined\<close>.
\<close>

type_synonym jsval = "string option"

definition bind_undefined :: error where
  "bind_undefined = JsTypeError
     ''Bind parameters must not contain undefined. To pass SQL NULL specify JS null''"

definition dup_entry :: "string \<Rightarrow> string \<Rightarrow> error" where
  "dup_entry v k = DriverError ''ER_DUP_ENTRY''
     (''Duplicate entry '' @ v @ '' for key '' @ k)"

definition data_truncated :: "string \<Rightarrow> error" where
  "data_truncated col = DriverError ''WARN_DATA_TRUNCATED''
     (''Data truncated for column '' @ col @ '' at row 1'')"

definition bad_field :: "string \<Rightarrow> error" where
  "bad_field col = DriverError ''ER_BAD_FIELD_ERROR''
     (''Unknown column '' @ col @ '' in field list'')"

text \<open>
  \<open>INSERT INTO users (username, email, password, role) VALUES (?, ?, ?, ?)\<close> under the
  two UNIQUE constraints; the result carries \<open>insertId\<close>.
\<close>

definition insert_user ::
  "db \<Rightarrow> nat \<Rightarrow> string \<Rightarrow> string \<Rightarrow> pwhash \<Rightarrow> role \<Rightarrow> db \<times> (error + nat)" where
  "insert_user d now un em pw r =
     (if \<exists>u \<in> set (users d). u_username u = un
        then (d, Inl (dup_entry un ''users.username''))
      else if \<exists>u \<in> set (users d). u_email u = em
        then (d, Inl (dup_entry em ''users.email''))
      else
        (d\<lparr>users := users d @
              [\<lparr>u_id = users_auto_increment d, u_username = un, u_email = em,
                u_password = pw, u_role = r, u_created_at = now\<rparr>],
            users_auto_increment := Suc (users_auto_increment d)\<rparr>,
         Inr (users_auto_increment d)))"

text \<open>
  Binding the parameters of an assignment list: \<open>None\<close> when one of them is
  \<open>undefined\<close>.
\<close>

fun bind :: "(string \<times> jsval) list \<Rightarrow> (string \<times> string) list option" where
  "bind [] = Some []"
| "bind ((f, None) # as) = None"
| "bind ((f, Some v) # as) = map_option ((#) (f, v)) (bind as)"

text \<open>\<open>updates[field]\<close>: the value under a key, \<open>undefined\<close> for a missing key.\<close>

definition lookup :: "(string \<times> jsval) list \<Rightarrow> string \<Rightarrow> jsval" where
  "lookup updates f = (case map_of updates f of None \<Rightarrow> None | Some v \<Rightarrow> v)"

definition set_user_field :: "string \<Rightarrow> string \<Rightarrow> user_row \<Rightarrow> error + user_row" where
  "set_user_field f v r =
     (if f = ''username'' then Inr (r\<lparr>u_username := v\<rparr>)
      else if f = ''email'' then Inr (r\<lparr>u_email := v\<rparr>)
      else if f = ''role'' then
        (case role_of_str v of
           None \<Rightarrow> Inl (data_truncated ''role'')
         | Some x \<Rightarrow> Inr (r\<lparr>u_role := x\<rparr>))
      else Inl (bad_field f))"

fun set_user_fields :: "(string \<times> string) list \<Rightarrow> user_row \<Rightarrow> error + user_row" where
  "set_user_fields [] r = Inr r"
| "set_user_fields ((f, v) # as) r =
     (case set_user_field f v r of
        Inl e \<Rightarrow> Inl e
      | Inr r' \<Rightarrow> set_user_fields as r')"

text \<open>
  The rows of an UPDATE: every row the WHERE clause selects is rewritten, and the
  first row that cannot be rewritten fails the statement.
\<close>

fun update_rows :: "('r \<Rightarrow> bool) \<Rightarrow> ('r \<Rightarrow> error + 'r) \<Rightarrow> 'r list \<Rightarrow> error + 'r list" where
  "update_rows sel upd [] = Inr []"
| "update_rows sel upd (r # rs) =
     (case (if sel r then upd r else Inr r) of
        Inl e \<Rightarrow> Inl e
      | Inr r' \<Rightarrow>
          (case update_rows sel upd rs of
             Inl e \<Rightarrow> Inl e
           | Inr rs' \<Rightarrow> Inr (r' # rs')))"

text \<open>
  \<open>UPDATE users SET f1 = ?, ... WHERE id = ?\<close> under the two UNIQUE constraints: a
  failed statement leaves the table as it was; no row with the id is an update of
  zero rows.
\<close>

definition update_users :: "db \<Rightarrow> (string \<times> jsval) list \<Rightarrow> nat \<Rightarrow> db \<times> (error + unit)" where
  "update_users d sets i =
     (case bind sets of
        None \<Rightarrow> (d, Inl bind_undefined)
      | Some as \<Rightarrow>
          (case update_rows (\<lambda>u. u_id u = i) (set_user_fields as) (users d) of
             Inl e \<Rightarrow> (d, Inl e)
           | Inr us \<Rightarrow>
               (case find (\<lambda>u. u_id u = i
                       \<and> (\<exists>v \<in> set us. u_id v \<noteq> i \<and> u_username v = u_username u)) us of
                  Some u \<Rightarrow> (d, Inl (dup_entry (u_username u) ''users.username''))
                | None \<Rightarrow>
                    (case find (\<lambda>u. u_id u = i
                            \<and> (\<exists>v \<in> set us. u_id v \<noteq> i \<and> u_email v = u_email u)) us of
                       Some u \<Rightarrow> (d, Inl (dup_entry (u_email u) ''users.email''))
                     | None \<Rightarrow> (d\<lparr>users := us\<rparr>, Inr ())))))"

text \<open>
  \<open>DELETE FROM users WHERE id = ?\<close>; the foreign key of \<open>tasks.user_id\<close> is declared
  \<open>ON DELETE CASCADE\<close>. The result is \<open>affectedRows\<close>.
\<close>

definition delete_users :: "db \<Rightarrow> nat \<Rightarrow> db \<times> nat" where
  "delete_users d i =
     (d\<lparr>users := filter (\<lambda>u. u_id u \<noteq> i) (users d),
        tasks := (if \<exists>u \<in> set (users d). u_id u = i
                  then filter (\<lambda>t. t_user_id t \<noteq> i) (tasks d) else tasks d)\<rparr>,
      length (filter (\<lambda>u. u_id u = i) (users d)))"

section \<open>Numbers read from a string\<close>

text \<open>
  A string is the list of the bytes of its UTF-8 encoding. \<open>parseInt\<close> of JavaScript
  (no radix given): white space is skipped, then a sign, then \<open>0x\<close> or \<open>0X\<close> selects
  radix 16; the result is the number of the longest run of digits that follows,
  \<open>NaN\<close> (\<open>None\<close>) when there is none. What follows the digits is ignored.
\<close>

definition is_digit :: "char \<Rightarrow> bool" where
  "is_digit c = (c \<in> set ''0123456789'')"

text \<open>The value of a digit is its place in the list of the digits.\<close>

definition place :: "char \<Rightarrow> string \<Rightarrow> nat" where
  "place c ds = length (takeWhile (\<lambda>d. d \<noteq> c) ds)"

definition digit_val :: "char \<Rightarrow> nat" where
  "digit_val c = place c ''0123456789''"

definition decimal :: "string \<Rightarrow> nat" where
  "decimal ds = foldl (\<lambda>n c. 10 * n + digit_val c) 0 ds"

definition is_hex_digit :: "char \<Rightarrow> bool" where
  "is_hex_digit c = (c \<in> set ''0123456789abcdefABCDEF'')"

definition hex_val :: "char \<Rightarrow> nat" where
  "hex_val c =
     (if c \<in> set ''ABCDEF'' then 10 + place c ''ABCDEF'' else place c ''0123456789abcdef'')"

definition hexadecimal :: "string \<Rightarrow> nat" where
  "hexadecimal ds = foldl (\<lambda>n c. 16 * n + hex_val c) 0 ds"

text \<open>
  The white space of ECMAScript: TAB, LF, VT, FF, CR, SP; U+00A0; U+1680, U+2000 to
  U+200A, U+2028, U+2029, U+202F, U+205F, U+3000 and U+FEFF.
\<close>

definition is_ws1 :: "char \<Rightarrow> bool" where
  "is_ws1 a = (a \<in> set [CHR 0x09, CHR 0x0A, CHR 0x0B, CHR 0x0C, CHR 0x0D, CHR 0x20])"

definition is_ws2 :: "char \<Rightarrow> char \<Rightarrow> bool" where
  "is_ws2 a b = (a = CHR 0xC2 \<and> b = CHR 0xA0)"

definition is_ws3 :: "char \<Rightarrow> char \<Rightarrow> char \<Rightarrow> bool" where
  "is_ws3 a b c =
     ((a = CHR 0xE1 \<and> b = CHR 0x9A \<and> c = CHR 0x80)
      \<or> (a = CHR 0xE2 \<and> b = CHR 0x80
           \<and> c \<in> set [CHR 0x80, CHR 0x81, CHR 0x82, CHR 0x83, CHR 0x84, CHR 0x85, CHR 0x86,
                        CHR 0x87, CHR 0x88, CHR 0x89, CHR 0x8A, CHR 0xA8, CHR 0xA9, CHR 0xAF])
      \<or> (a = CHR 0xE2 \<and> b = CHR 0x81 \<and> c = CHR 0x9F)
      \<or> (a = CHR 0xE3 \<and> b = CHR 0x80 \<and> c = CHR 0x80)
      \<or> (a = CHR 0xEF \<and> b = CHR 0xBB \<and> c = CHR 0xBF))"

fun js_trim_start :: "string \<Rightarrow> string" where
  "js_trim_start (a # b # c # s) =
     (if is_ws1 a then js_trim_start (b # c # s)
      else if is_ws2 a b then js_trim_start (c # s)
      else if is_ws3 a b c then js_trim_start s
      else a # b # c # s)"
| "js_trim_start [a, b] =
     (if is_ws1 a then js_trim_start [b] else if is_ws2 a b then [] else [a, b])"
| "js_trim_start [a] = (if is_ws1 a then [] else [a])"
| "js_trim_start [] = []"

definition take_sign :: "string \<Rightarrow> bool \<times> string" where
  "take_sign s =
     (case s of
        [] \<Rightarrow> (False, [])
      | c # r \<Rightarrow>
          if c = CHR ''-'' then (True, r) else if c = CHR ''+'' then (False, r) else (False, s))"

definition signed :: "bool \<Rightarrow> nat \<Rightarrow> int" where
  "signed neg n = (if neg then - int n else int n)"

definition parseInt :: "string \<Rightarrow> int option" where
  "parseInt s =
     (case take_sign (js_trim_start s) of
        (neg, r) \<Rightarrow>
          (case r of
             a # b # h \<Rightarrow>
               if a = CHR ''0'' \<and> (b = CHR ''x'' \<or> b = CHR ''X'') then
                 (let z = takeWhile is_hex_digit h
                  in if z = [] then None else Some (signed neg (hexadecimal z)))
               else
                 (let z = takeWhile is_digit r
                  in if z = [] then None else Some (signed neg (decimal z)))
           | _ \<Rightarrow>
               (let z = takeWhile is_digit r
                in if z = [] then None else Some (signed neg (decimal z)))))"

text \<open>
  The server compares a numeric column with a string parameter as numbers. The
  string is read as a decimal literal: a sign, digits with an optional fraction, an
  optional exponent, blanks around it; the number is a sign, a mantissa and a power
  of ten, taken exactly (the server rounds it to a double). A string that is not
  such a literal is a truncated value, which a DELETE in strict SQL mode (the
  server's default) refuses.
\<close>

definition is_blank :: "char \<Rightarrow> bool" where
  "is_blank c = (c \<in> set [CHR 0x20, CHR 0x09, CHR 0x0A, CHR 0x0B, CHR 0x0C, CHR 0x0D])"

definition take_exponent :: "string \<Rightarrow> (int \<times> string) option" where
  "take_exponent s =
     (case s of
        [] \<Rightarrow> Some (0, [])
      | c # r \<Rightarrow>
          if c = CHR ''e'' \<or> c = CHR ''E'' then
            (case take_sign r of
               (neg, r') \<Rightarrow>
                 (let ds = takeWhile is_digit r'
                  in if ds = [] then None
                     else Some (signed neg (decimal ds), dropWhile is_digit r')))
          else Some (0, s))"

definition mysql_number :: "string \<Rightarrow> (bool \<times> nat \<times> int) option" where
  "mysql_number s =
     (case take_sign (dropWhile is_blank s) of
        (neg, r) \<Rightarrow>
          (let ip = takeWhile is_digit r;
               r1 = dropWhile is_digit r;
               dot = (case r1 of [] \<Rightarrow> False | c # x \<Rightarrow> c = CHR ''.'');
               fp = (if dot then takeWhile is_digit (tl r1) else []);
               r2 = (if dot then dropWhile is_digit (tl r1) else r1)
           in if ip = [] \<and> fp = [] then None
              else
                (case take_exponent r2 of
                   None \<Rightarrow> None
                 | Some (e, r3) \<Rightarrow>
                     if dropWhile is_blank r3 = []
                       then Some (neg, decimal (ip @ fp), e - int (length fp))
                     else None)))"

text \<open>The natural number that such a number is, if it is one.\<close>

definition natural_of :: "bool \<times> nat \<times> int \<Rightarrow> nat option" where
  "natural_of x =
     (case x of
        (neg, m, e) \<Rightarrow>
          if m = 0 then Some 0
          else if neg then None
          else if 0 \<le> e then Some (m * 10 ^ nat e)
          else if m mod 10 ^ nat (- e) = 0 then Some (m div 10 ^ nat (- e))
          else None)"

definition truncated_value :: "string \<Rightarrow> error" where
  "truncated_value s = DriverError ''ER_TRUNCATED_WRONG_VALUE''
     (''Truncated incorrect DOUBLE value: '' @ s)"

text \<open>
  The id that \<open>WHERE id = ?\<close> selects when the parameter is the string: an error
  for a truncated value, no id for a number that is not a natural number.
\<close>

definition mysql_id :: "string \<Rightarrow> error + nat option" where
  "mysql_id s =
     (case mysql_number s of
        None \<Rightarrow> Inl (truncated_value s)
      | Some x \<Rightarrow> Inr (natural_of x))"

section \<open>models/User.js\<close>

record user_info =
  i_id :: nat
  i_username :: string
  i_email :: string
  i_role :: role

record user_public =
  pu_id :: nat
  pu_username :: string
  pu_email :: string
  pu_role :: role
  pu_created_at :: nat

definition public_of :: "user_row \<Rightarrow> user_public" where
  "public_of u = \<lparr>pu_id = u_id u, pu_username = u_username u, pu_email = u_email u,
                   pu_role = u_role u, pu_created_at = u_created_at u\<rparr>"

definition bcrypt_rounds :: "env \<Rightarrow> nat" where
  "bcrypt_rounds e =
     (case BCRYPT_ROUNDS e of None \<Rightarrow> 10 | Some n \<Rightarrow> if n = 0 then 10 else n)"

text \<open>\<open>User.create({ username, email, password, role = 'user' })\<close>\<close>

definition User_create ::
  "env \<Rightarrow> db \<Rightarrow> nat \<Rightarrow> string \<Rightarrow> string \<Rightarrow> string \<Rightarrow> role option
     \<Rightarrow> db \<times> (error + user_info)" where
  "User_create e d now username email password role_arg =
     (let role = (case role_arg of None \<Rightarrow> RUser | Some r \<Rightarrow> r);
          hashedPassword = bcrypt_hash password (bcrypt_rounds e)
      in case insert_user d now username email hashedPassword role of
           (d', Inl err) \<Rightarrow> (d', Inl err)
         | (d', Inr insertId) \<Rightarrow>
             (d', Inr \<lparr>i_id = insertId, i_username = username, i_email = email,
                       i_role = role\<rparr>))"

definition User_findById :: "db \<Rightarrow> nat \<Rightarrow> user_public option" where
  "User_findById d i = map_option public_of (find (\<lambda>u. u_id u = i) (users d))"

definition User_findByEmail :: "db \<Rightarrow> string \<Rightarrow> user_row option" where
  "User_findByEmail d email = find (\<lambda>u. u_email u = email) (users d)"

definition allowedUserFields :: "string list" where
  "allowedUserFields = [''username'', ''email'', ''role'']"

definition User_update ::
  "db \<Rightarrow> nat \<Rightarrow> (string \<times> jsval) list \<Rightarrow> db \<times> (error + user_public option)" where
  "User_update d i updates =
     (let fields = filter (\<lambda>key. key \<in> set allowedUserFields) (map fst updates) in
      if length fields = 0 then (d, Inl (JsError ''No valid fields to update''))
      else
        (case update_users d (map (\<lambda>field. (field, lookup updates field)) fields) i of
           (d', Inl err) \<Rightarrow> (d', Inl err)
         | (d', Inr _) \<Rightarrow> (d', Inr (User_findById d' i))))"

text \<open>
  \<open>User.delete(id)\<close>. Its caller passes \<open>req.params.id\<close> as it came, so the id is the
  string here; the other functions of the stores take the id that the server reads
  from the parameter.
\<close>

definition User_delete :: "db \<Rightarrow> string \<Rightarrow> db \<times> (error + bool)" where
  "User_delete d param =
     (case mysql_id param of
        Inl err \<Rightarrow> (d, Inl err)
      | Inr None \<Rightarrow> (d, Inr False)
      | Inr (Some i) \<Rightarrow>
          (case delete_users d i of (d', affectedRows) \<Rightarrow> (d', Inr (affectedRows > 0))))"

definition User_verifyPassword :: "string \<Rightarrow> pwhash \<Rightarrow> bool" where
  "User_verifyPassword plainPassword hashedPassword =
     bcrypt_compare plainPassword hashedPassword"

section \<open>utils/jwt.js\<close>

text \<open>
  SHA-256 (FIPS 180-4) on byte strings.
\<close>

type_synonym w32 = "32 word"

definition rotr :: "nat \<Rightarrow> w32 \<Rightarrow> w32" where
  "rotr n x = word_rotr n x"

definition Ch :: "w32 \<Rightarrow> w32 \<Rightarrow> w32 \<Rightarrow> w32" where
  "Ch x y z = (x AND y) XOR (NOT x AND z)"

definition Maj :: "w32 \<Rightarrow> w32 \<Rightarrow> w32 \<Rightarrow> w32" where
  "Maj x y z = (x AND y) XOR (x AND z) XOR (y AND z)"

definition bsig0 :: "w32 \<Rightarrow> w32" where
  "bsig0 x = rotr 2 x XOR rotr 13 x XOR rotr 22 x"

definition bsig1 :: "w32 \<Rightarrow> w32" where
  "bsig1 x = rotr 6 x XOR rotr 11 x XOR rotr 25 x"

definition ssig0 :: "w32 \<Rightarrow> w32" where
  "ssig0 x = rotr 7 x XOR rotr 18 x XOR drop_bit 3 x"

definition ssig1 :: "w32 \<Rightarrow> w32" where
  "ssig1 x = rotr 17 x XOR rotr 19 x XOR drop_bit 10 x"

text \<open>The round constants, eight rounds to a row.\<close>

definition sha_K0 :: "w32 list" where
  "sha_K0 =
     [0x428a2f98, 0x71374491, 0xb5c0fbcf, 0xe9b5dba5,
      0x3956c25b, 0x59f111f1, 0x923f82a4, 0xab1c5ed5]"

definition sha_K1 :: "w32 list" where
  "sha_K1 =
     [0xd807aa98, 0x12835b01, 0x243185be, 0x550c7dc3,
      0x72be5d74, 0x80deb1fe, 0x9bdc06a7, 0xc19bf174]"

definition sha_K2 :: "w32 list" where
  "sha_K2 =
     [0xe49b69c1, 0xefbe4786, 0x0fc19dc6, 0x240ca1cc,
      0x2de92c6f, 0x4a7484aa, 0x5cb0a9dc, 0x76f988da]"

definition sha_K3 :: "w32 list" where
  "sha_K3 =
     [0x983e5152, 0xa831c66d, 0xb00327c8, 0xbf597fc7,
      0xc6e00bf3, 0xd5a79147, 0x06ca6351, 0x14292967]"

definition sha_K4 :: "w32 list" where
  "sha_K4 =
     [0x27b70a85, 0x2e1b2138, 0x4d2c6dfc, 0x53380d13,
      0x650a7354, 0x766a0abb, 0x81c2c92e, 0x92722c85]"

definition sha_K5 :: "w32 list" where
  "sha_K5 =
     [0xa2bfe8a1, 0xa81a664b, 0xc24b8b70, 0xc76c51a3,
      0xd192e819, 0xd6990624, 0xf40e3585, 0x106aa070]"

definition sha_K6 :: "w32 list" where
  "sha_K6 =
     [0x19a4c116, 0x1e376c08, 0x2748774c, 0x34b0bcb5,
      0x391c0cb3, 0x4ed8aa4a, 0x5b9cca4f, 0x682e6ff3]"

definition sha_K7 :: "w32 list" where
  "sha_K7 =
     [0x748f82ee, 0x78a5636f, 0x84c87814, 0x8cc70208,
      0x90befffa, 0xa4506ceb, 0xbef9a3f7, 0xc67178f2]"

definition sha_K :: "w32 list" where
  "sha_K = sha_K0 @ sha_K1 @ sha_K2 @ sha_K3 @ sha_K4 @ sha_K5 @ sha_K6 @ sha_K7"

type_synonym sha_state = "w32 \<times> w32 \<times> w32 \<times> w32 \<times> w32 \<times> w32 \<times> w32 \<times> w32"

definition sha_H0 :: sha_state where
  "sha_H0 = (0x6a09e667, 0xbb67ae85, 0x3c6ef372, 0xa54ff53a,
             0x510e527f, 0x9b05688c, 0x1f83d9ab, 0x5be0cd19)"

definition sha_pad :: "nat list \<Rightarrow> nat list" where
  "sha_pad bs =
     bs @ [128] @ replicate ((64 - (length bs + 9) mod 64) mod 64) 0
        @ map (\<lambda>i. (8 * length bs) div 256 ^ i mod 256) [7, 6, 5, 4, 3, 2, 1, 0]"

fun be_words :: "nat list \<Rightarrow> w32 list" where
  "be_words (a # b # c # d # bs) =
     word_of_nat (((a * 256 + b) * 256 + c) * 256 + d) # be_words bs"
| "be_words bs = []"

fun schedule :: "nat \<Rightarrow> w32 list \<Rightarrow> w32 list" where
  "schedule 0 ws = ws"
| "schedule (Suc n) ws =
     schedule n
       (ws @ [ssig1 (ws ! (length ws - 2)) + ws ! (length ws - 7)
              + ssig0 (ws ! (length ws - 15)) + ws ! (length ws - 16)])"

fun sha_round :: "w32 \<times> w32 \<Rightarrow> sha_state \<Rightarrow> sha_state" where
  "sha_round (k, w) (a, b, c, d, e, f, g, h) =
     (let t1 = h + bsig1 e + Ch e f g + k + w;
          t2 = bsig0 a + Maj a b c
      in (t1 + t2, a, b, c, d + t1, e, f, g))"

fun sha_add :: "sha_state \<Rightarrow> sha_state \<Rightarrow> sha_state" where
  "sha_add (a, b, c, d, e, f, g, h) (a', b', c', d', e', f', g', h') =
     (a + a', b + b', c + c', d + d', e + e', f + f', g + g', h + h')"

definition sha_block :: "w32 list \<Rightarrow> sha_state \<Rightarrow> sha_state" where
  "sha_block ws s = sha_add s (fold sha_round (zip sha_K (schedule 48 ws)) s)"

fun sha_blocks :: "nat \<Rightarrow> w32 list \<Rightarrow> sha_state \<Rightarrow> sha_state" where
  "sha_blocks 0 ws s = s"
| "sha_blocks (Suc n) ws s = sha_blocks n (drop 16 ws) (sha_block (take 16 ws) s)"

definition be_bytes :: "w32 \<Rightarrow> string" where
  "be_bytes x = map (\<lambda>i. char_of (unat (drop_bit (8 * i) x))) [3, 2, 1, 0]"

fun sha_digest :: "sha_state \<Rightarrow> string" where
  "sha_digest (a, b, c, d, e, f, g, h) =
     be_bytes a @ be_bytes b @ be_bytes c @ be_bytes d
       @ be_bytes e @ be_bytes f @ be_bytes g @ be_bytes h"

definition sha256 :: "string \<Rightarrow> string" where
  "sha256 m =
     (let ws = be_words (sha_pad (map of_char m))
      in sha_digest (sha_blocks (length ws div 16) ws sha_H0))"

text \<open>
  jsonwebtoken with HS256. A secret is the bytes of its UTF-8 encoding. HMAC
  (RFC 2104) derives its key from the secret: a secret longer than the 64 bytes of
  a SHA-256 block is replaced by its digest, and the result is padded with zero
  bytes to 64. Beyond that the tag is symbolic: the tag of a token determines the
  HMAC key and the claims it was computed from. \<open>sign\<close> adds \<open>iat\<close> and \<open>exp\<close> to
  the payload and throws on an empty secret; \<open>verify\<close> throws on an empty secret, a
  tag that is not the one for its secret, and a token whose \<open>exp\<close> has been reached.
\<close>

definition hmac_key :: "string \<Rightarrow> string" where
  "hmac_key secret =
     (let k = (if length secret > 64 then sha256 secret else secret)
      in k @ replicate (64 - length k) (CHR 0x00))"

record payload =
  pl_id :: nat
  pl_role :: "role option"

record claims =
  c_id :: nat
  c_role :: "role option"
  c_iat :: nat
  c_exp :: nat

datatype tag = HS256 string claims

record jwt =
  jwt_claims :: claims
  jwt_tag :: tag

definition jwt_sign :: "payload \<Rightarrow> string \<Rightarrow> nat \<Rightarrow> nat \<Rightarrow> error + jwt" where
  "jwt_sign p secret expiresIn now =
     (if secret = [] then Inl (JsError ''secretOrPrivateKey must have a value'')
      else
        (let c = \<lparr>c_id = pl_id p, c_role = pl_role p, c_iat = now,
                  c_exp = now + expiresIn\<rparr>
         in Inr \<lparr>jwt_claims = c, jwt_tag = HS256 (hmac_key secret) c\<rparr>))"

definition jwt_verify :: "jwt \<Rightarrow> string \<Rightarrow> nat \<Rightarrow> error + claims" where
  "jwt_verify token secret now =
     (if secret = [] then Inl (JsError ''secret or public key must be provided'')
      else if jwt_tag token \<noteq> HS256 (hmac_key secret) (jwt_claims token)
        then Inl (JsError ''invalid signature'')
      else if now \<ge> c_exp (jwt_claims token) then Inl (JsError ''jwt expired'')
      else Inr (jwt_claims token))"

definition days :: "nat \<Rightarrow> nat" where
  "days n = n * 86400"

definition generateAccessToken :: "env \<Rightarrow> nat \<Rightarrow> payload \<Rightarrow> error + jwt" where
  "generateAccessToken e now p =
     jwt_sign p (JWT_SECRET e)
       (case JWT_EXPIRE e of None \<Rightarrow> days 7 | Some n \<Rightarrow> n) now"

definition generateRefreshToken :: "env \<Rightarrow> nat \<Rightarrow> payload \<Rightarrow> error + jwt" where
  "generateRefreshToken e now p =
     jwt_sign p (JWT_REFRESH_SECRET e)
       (case JWT_REFRESH_EXPIRE e of None \<Rightarrow> days 30 | Some n \<Rightarrow> n) now"

definition verifyAccessToken :: "env \<Rightarrow> nat \<Rightarrow> jwt \<Rightarrow> error + claims" where
  "verifyAccessToken e now token =
     (case jwt_verify token (JWT_SECRET e) now of
        Inl err \<Rightarrow> Inl (JsError ''Invalid or expired token'')
      | Inr c \<Rightarrow> Inr c)"

definition verifyRefreshToken :: "env \<Rightarrow> nat \<Rightarrow> jwt \<Rightarrow> error + claims" where
  "verifyRefreshToken e now token =
     (case jwt_verify token (JWT_REFRESH_SECRET e) now of
        Inl err \<Rightarrow> Inl (JsError ''Invalid or expired refresh token'')
      | Inr c \<Rightarrow> Inr c)"

section \<open>models/Task.js\<close>

text \<open>A task row joined with its owner: \<open>SELECT t.*, u.username, u.email ... LEFT JOIN\<close>.\<close>

record task_view =
  tv_task :: task_row
  tv_username :: "string option"
  tv_email :: "string option"

definition join_user :: "db \<Rightarrow> task_row \<Rightarrow> task_view" where
  "join_user d t =
     (case find (\<lambda>u. u_id u = t_user_id t) (users d) of
        None \<Rightarrow> \<lparr>tv_task = t, tv_username = None, tv_email = None\<rparr>
      | Some u \<Rightarrow> \<lparr>tv_task = t, tv_username = Some (u_username u),
                   tv_email = Some (u_email u)\<rparr>)"

definition Task_findById :: "db \<Rightarrow> nat \<Rightarrow> task_view option" where
  "Task_findById d i = map_option (join_user d) (find (\<lambda>t. t_id t = i) (tasks d))"

record list_opts =
  o_limit :: "nat option"
  o_offset :: "nat option"
  o_status :: "status option"
  o_priority :: "priority option"
  o_user_id :: "nat option"

text \<open>\<open>ORDER BY created_at DESC LIMIT ? OFFSET ?\<close>\<close>

definition newest_first :: "task_row list \<Rightarrow> task_row list" where
  "newest_first ts = rev (sort_key t_created_at ts)"

definition page :: "nat \<Rightarrow> nat \<Rightarrow> 'a list \<Rightarrow> 'a list" where
  "page limit offset xs = take limit (drop offset xs)"

definition status_matches :: "status option \<Rightarrow> task_row \<Rightarrow> bool" where
  "status_matches f t = (case f of None \<Rightarrow> True | Some s \<Rightarrow> t_status t = s)"

definition priority_matches :: "priority option \<Rightarrow> task_row \<Rightarrow> bool" where
  "priority_matches f t = (case f of None \<Rightarrow> True | Some x \<Rightarrow> t_priority t = x)"

definition Task_findByUserId :: "db \<Rightarrow> nat \<Rightarrow> list_opts \<Rightarrow> task_row list" where
  "Task_findByUserId d userId opts =
     (let limit = (case o_limit opts of None \<Rightarrow> 10 | Some n \<Rightarrow> n);
          offset = (case o_offset opts of None \<Rightarrow> 0 | Some n \<Rightarrow> n)
      in page limit offset (newest_first
           (filter (\<lambda>t. t_user_id t = userId \<and> status_matches (o_status opts) t
                       \<and> priority_matches (o_priority opts) t) (tasks d))))"

text \<open>\<open>if (user_id)\<close>: an id that is absent or 0 adds no condition.\<close>

definition owner_matches :: "nat option \<Rightarrow> task_row \<Rightarrow> bool" where
  "owner_matches f t = (case f of None \<Rightarrow> True | Some u \<Rightarrow> u = 0 \<or> t_user_id t = u)"

definition Task_findAll :: "db \<Rightarrow> list_opts \<Rightarrow> task_view list" where
  "Task_findAll d opts =
     (let limit = (case o_limit opts of None \<Rightarrow> 10 | Some n \<Rightarrow> n);
          offset = (case o_offset opts of None \<Rightarrow> 0 | Some n \<Rightarrow> n)
      in map (join_user d) (page limit offset (newest_first
           (filter (\<lambda>t. status_matches (o_status opts) t
                       \<and> priority_matches (o_priority opts) t
                       \<and> owner_matches (o_user_id opts) t) (tasks d)))))"

definition Task_count :: "db \<Rightarrow> nat option \<Rightarrow> status option \<Rightarrow> priority option \<Rightarrow> nat" where
  "Task_count d userId status priority =
     length (filter (\<lambda>t. owner_matches userId t \<and> status_matches status t
                         \<and> priority_matches priority t) (tasks d))"

definition set_task_field :: "string \<Rightarrow> string \<Rightarrow> task_row \<Rightarrow> error + task_row" where
  "set_task_field f v t =
     (if f = ''title'' then Inr (t\<lparr>t_title := v\<rparr>)
      else if f = ''description'' then Inr (t\<lparr>t_description := Some v\<rparr>)
      else if f = ''status'' then
        (case status_of_str v of
           None \<Rightarrow> Inl (data_truncated ''status'')
         | Some x \<Rightarrow> Inr (t\<lparr>t_status := x\<rparr>))
      else if f = ''priority'' then
        (case priority_of_str v of
           None \<Rightarrow> Inl (data_truncated ''priority'')
         | Some x \<Rightarrow> Inr (t\<lparr>t_priority := x\<rparr>))
      else if f = ''due_date'' then Inr (t\<lparr>t_due_date := Some v\<rparr>)
      else Inl (bad_field f))"

fun set_task_fields :: "(string \<times> string) list \<Rightarrow> task_row \<Rightarrow> error + task_row" where
  "set_task_fields [] t = Inr t"
| "set_task_fields ((f, v) # as) t =
     (case set_task_field f v t of
        Inl e \<Rightarrow> Inl e
      | Inr t' \<Rightarrow> set_task_fields as t')"

text \<open>\<open>UPDATE tasks SET f1 = ?, ... WHERE id = ?\<close>\<close>

definition update_tasks :: "db \<Rightarrow> (string \<times> jsval) list \<Rightarrow> nat \<Rightarrow> db \<times> (error + unit)" where
  "update_tasks d sets i =
     (case bind sets of
        None \<Rightarrow> (d, Inl bind_undefined)
      | Some as \<Rightarrow>
          (case update_rows (\<lambda>t. t_id t = i) (set_task_fields as) (tasks d) of
             Inl e \<Rightarrow> (d, Inl e)
           | Inr ts \<Rightarrow> (d\<lparr>tasks := ts\<rparr>, Inr ())))"

text \<open>\<open>DELETE FROM tasks WHERE id = ?\<close>, with \<open>affectedRows\<close>.\<close>

definition delete_tasks :: "db \<Rightarrow> nat \<Rightarrow> db \<times> nat" where
  "delete_tasks d i =
     (d\<lparr>tasks := filter (\<lambda>t. t_id t \<noteq> i) (tasks d)\<rparr>,
      length (filter (\<lambda>t. t_id t = i) (tasks d)))"

definition allowedFields :: "string list" where
  "allowedFields = [''title'', ''description'', ''status'', ''priority'', ''due_date'']"

text \<open>The ownership check that \<open>Task.update\<close> and \<open>Task.delete\<close> share.\<close>

definition not_owned :: "db \<Rightarrow> nat \<Rightarrow> nat \<Rightarrow> bool" where
  "not_owned d i userId =
     (case Task_findById d i of
        None \<Rightarrow> True
      | Some task \<Rightarrow> t_user_id (tv_task task) \<noteq> userId)"

definition Task_update ::
  "db \<Rightarrow> nat \<Rightarrow> nat \<Rightarrow> (string \<times> jsval) list \<Rightarrow> bool
     \<Rightarrow> db \<times> (error + task_view option)" where
  "Task_update d i userId updates isAdmin =
     (if \<not> isAdmin \<and> not_owned d i userId
        then (d, Inl (JsError ''Task not found or unauthorized''))
      else
        (let fields = filter (\<lambda>key. key \<in> set allowedFields) (map fst updates) in
         if length fields = 0 then (d, Inl (JsError ''No valid fields to update''))
         else
           (case update_tasks d (map (\<lambda>field. (field, lookup updates field)) fields) i of
              (d', Inl err) \<Rightarrow> (d', Inl err)
            | (d', Inr _) \<Rightarrow> (d', Inr (Task_findById d' i)))))"

definition Task_delete :: "db \<Rightarrow> nat \<Rightarrow> nat \<Rightarrow> bool \<Rightarrow> db \<times> (error + bool)" where
  "Task_delete d i userId isAdmin =
     (if \<not> isAdmin \<and> not_owned d i userId
        then (d, Inl (JsError ''Task not found or unauthorized''))
      else (case delete_tasks d i of (d', affectedRows) \<Rightarrow> (d', Inr (affectedRows > 0))))"

section \<open>Requests and responses\<close>

text \<open>
  \<open>req.user\<close>, the principal the authentication middleware attached to the request.
\<close>

record principal =
  p_id :: nat
  p_role :: role

record pagination =
  pg_total :: nat
  pg_limit :: nat
  pg_offset :: nat
  pg_hasMore :: bool

datatype data =
    NoData
  | AuthData user_info jwt jwt
  | AccessTokenData jwt
  | UserData "user_public option"
  | TaskData "task_view option"
  | TaskRows "task_row list" pagination
  | TaskViews "task_view list" pagination

record response =
  r_status :: nat
  r_success :: bool
  r_message :: "string option"
  r_data :: data

text \<open>
  What a handler does with a request: it sends a response, or it hands an error to
  \<open>next\<close>, the error-handling middleware.
\<close>

datatype outcome = Respond response | Next error

definition json :: "nat \<Rightarrow> bool \<Rightarrow> string option \<Rightarrow> data \<Rightarrow> outcome" where
  "json st ok msg dat =
     Respond \<lparr>r_status = st, r_success = ok, r_message = msg, r_data = dat\<rparr>"

section \<open>controllers/authController.js\<close>

text \<open>
  The body of \<open>POST /auth/register\<close>: the three required strings and the optional role.
\<close>

record register_body =
  rb_username :: string
  rb_email :: string
  rb_password :: string
  rb_role :: "role option"

definition info_of_row :: "user_row \<Rightarrow> user_info" where
  "info_of_row u = \<lparr>i_id = u_id u, i_username = u_username u, i_email = u_email u,
                     i_role = u_role u\<rparr>"

definition register :: "env \<Rightarrow> db \<Rightarrow> nat \<Rightarrow> register_body \<Rightarrow> db \<times> outcome" where
  "register e d now body =
     (case User_findByEmail d (rb_email body) of
        Some existingUser \<Rightarrow>
          (d, json 400 False (Some ''User with this email already exists'') NoData)
      | None \<Rightarrow>
          (case User_create e d now (rb_username body) (rb_email body) (rb_password body)
                  (rb_role body) of
             (d', Inl err) \<Rightarrow> (d', Next err)
           | (d', Inr user) \<Rightarrow>
               (case generateAccessToken e now
                       \<lparr>pl_id = i_id user, pl_role = Some (i_role user)\<rparr> of
                  Inl err \<Rightarrow> (d', Next err)
                | Inr accessToken \<Rightarrow>
                    (case generateRefreshToken e now
                            \<lparr>pl_id = i_id user, pl_role = None\<rparr> of
                       Inl err \<Rightarrow> (d', Next err)
                     | Inr refreshToken \<Rightarrow>
                         (d', json 201 True (Some ''User registered successfully'')
                                (AuthData user accessToken refreshToken))))))"

definition login :: "env \<Rightarrow> db \<Rightarrow> nat \<Rightarrow> string \<Rightarrow> string \<Rightarrow> outcome" where
  "login e d now email password =
     (case User_findByEmail d email of
        None \<Rightarrow> json 401 False (Some ''Invalid credentials'') NoData
      | Some user \<Rightarrow>
          if \<not> User_verifyPassword password (u_password user)
            then json 401 False (Some ''Invalid credentials'') NoData
          else
            (case generateAccessToken e now
                    \<lparr>pl_id = u_id user, pl_role = Some (u_role user)\<rparr> of
               Inl err \<Rightarrow> Next err
             | Inr accessToken \<Rightarrow>
                 (case generateRefreshToken e now \<lparr>pl_id = u_id user, pl_role = None\<rparr> of
                    Inl err \<Rightarrow> Next err
                  | Inr refreshToken \<Rightarrow>
                      json 200 True (Some ''Login successful'')
                        (AuthData (info_of_row user) accessToken refreshToken))))"

definition refreshToken :: "env \<Rightarrow> db \<Rightarrow> nat \<Rightarrow> jwt option \<Rightarrow> outcome" where
  "refreshToken e d now body_refreshToken =
     (case body_refreshToken of
        None \<Rightarrow> json 400 False (Some ''Refresh token is required'') NoData
      | Some token \<Rightarrow>
          (case verifyRefreshToken e now token of
             Inl err \<Rightarrow> Next err
           | Inr decoded \<Rightarrow>
               (case User_findById d (c_id decoded) of
                  None \<Rightarrow> json 401 False (Some ''User not found'') NoData
                | Some user \<Rightarrow>
                    (case generateAccessToken e now
                            \<lparr>pl_id = pu_id user, pl_role = Some (pu_role user)\<rparr> of
                       Inl err \<Rightarrow> Next err
                     | Inr newAccessToken \<Rightarrow>
                         json 200 True (Some ''Token refreshed successfully'')
                           (AccessTokenData newAccessToken)))))"

definition updateProfile :: "db \<Rightarrow> principal \<Rightarrow> jsval \<Rightarrow> jsval \<Rightarrow> db \<times> outcome" where
  "updateProfile d user username email =
     (case User_update d (p_id user) [(''username'', username), (''email'', email)] of
        (d', Inl err) \<Rightarrow> (d', Next err)
      | (d', Inr updatedUser) \<Rightarrow>
          (d', json 200 True (Some ''Profile updated successfully'') (UserData updatedUser)))"

section \<open>controllers/userController.js\<close>

definition updateUser :: "db \<Rightarrow> nat \<Rightarrow> jsval \<Rightarrow> jsval \<Rightarrow> role option \<Rightarrow> db \<times> outcome" where
  "updateUser d param_id username email role =
     (case User_update d param_id
             [(''username'', username), (''email'', email),
              (''role'', map_option role_str role)] of
        (d', Inl err) \<Rightarrow> (d', Next err)
      | (d', Inr user) \<Rightarrow>
          (d', json 200 True (Some ''User updated successfully'') (UserData user)))"

text \<open>
  \<open>deleteUser\<close> reads \<open>req.params.id\<close> twice: the guard compares
  \<open>parseInt(req.params.id)\<close> with \<open>req.user.id\<close>, and \<open>User.delete\<close> binds the string
  itself. The route has no validator for the parameter.
\<close>

definition deleteUser :: "db \<Rightarrow> principal \<Rightarrow> string \<Rightarrow> db \<times> outcome" where
  "deleteUser d user param_id =
     (if parseInt param_id = Some (int (p_id user))
        then (d, json 400 False (Some ''You cannot delete your own account'') NoData)
      else
        (case User_delete d param_id of
           (d', Inl err) \<Rightarrow> (d', Next err)
         | (d', Inr deleted) \<Rightarrow>
             if \<not> deleted then (d', json 404 False (Some ''User not found'') NoData)
             else (d', json 200 True (Some ''User deleted successfully'') NoData)))"

section \<open>controllers/taskController.js\<close>

record task_query =
  q_limit :: "nat option"
  q_offset :: "nat option"
  q_status :: "status option"
  q_priority :: "priority option"

definition getTasks :: "db \<Rightarrow> principal \<Rightarrow> task_query \<Rightarrow> outcome" where
  "getTasks d user q =
     (let limit = (case q_limit q of None \<Rightarrow> 10 | Some n \<Rightarrow> n);
          offset = (case q_offset q of None \<Rightarrow> 0 | Some n \<Rightarrow> n);
          isAdmin = (p_role user = RAdmin);
          opts = \<lparr>o_limit = Some limit, o_offset = Some offset, o_status = q_status q,
                  o_priority = q_priority q, o_user_id = None\<rparr>
      in if isAdmin then
           (let tasks = Task_findAll d opts;
                total = Task_count d None (q_status q) (q_priority q)
            in json 200 True None
                 (TaskViews tasks \<lparr>pg_total = total, pg_limit = limit, pg_offset = offset,
                                   pg_hasMore = (total > offset + limit)\<rparr>))
         else
           (let tasks = Task_findByUserId d (p_id user) opts;
                total = Task_count d (Some (p_id user)) (q_status q) (q_priority q)
            in json 200 True None
                 (TaskRows tasks \<lparr>pg_total = total, pg_limit = limit, pg_offset = offset,
                                  pg_hasMore = (total > offset + limit)\<rparr>)))"

definition getTask :: "db \<Rightarrow> principal \<Rightarrow> nat \<Rightarrow> outcome" where
  "getTask d user param_id =
     (case Task_findById d param_id of
        None \<Rightarrow> json 404 False (Some ''Task not found'') NoData
      | Some task \<Rightarrow>
          if t_user_id (tv_task task) \<noteq> p_id user \<and> p_role user \<noteq> RAdmin
            then json 403 False (Some ''Not authorized to access this task'') NoData
          else json 200 True None (TaskData (Some task)))"

text \<open>
  The body of \<open>PUT /tasks/:id\<close>. Every field is optional for the validator
  (\<open>updateTaskValidation\<close> of validators/taskValidator.js); an absent field is
  \<open>undefined\<close>.
\<close>

record task_body =
  b_title :: jsval
  b_description :: jsval
  b_status :: "status option"
  b_priority :: "priority option"
  b_due_date :: jsval

text \<open>The object literal \<open>{ title, description, status, priority, due_date }\<close>.\<close>

definition task_updates :: "task_body \<Rightarrow> (string \<times> jsval) list" where
  "task_updates body =
     [(''title'', b_title body), (''description'', b_description body),
      (''status'', map_option status_str (b_status body)),
      (''priority'', map_option priority_str (b_priority body)),
      (''due_date'', b_due_date body)]"

text \<open>The \<open>catch\<close> of \<open>updateTask\<close> and \<open>deleteTask\<close>.\<close>

definition catch_not_found :: "error \<Rightarrow> outcome" where
  "catch_not_found err =
     (if includes_str (message err) ''not found'' \<or> includes_str (message err) ''unauthorized''
        then json 404 False (Some (message err)) NoData
      else Next err)"

definition updateTask :: "db \<Rightarrow> principal \<Rightarrow> nat \<Rightarrow> task_body \<Rightarrow> db \<times> outcome" where
  "updateTask d user param_id body =
     (let isAdmin = (p_role user = RAdmin) in
      case Task_update d param_id (p_id user) (task_updates body) isAdmin of
        (d', Inr task) \<Rightarrow>
          (d', json 200 True (Some ''Task updated successfully'') (TaskData task))
      | (d', Inl err) \<Rightarrow> (d', catch_not_found err))"

definition deleteTask :: "db \<Rightarrow> principal \<Rightarrow> nat \<Rightarrow> db \<times> outcome" where
  "deleteTask d user param_id =
     (let isAdmin = (p_role user = RAdmin) in
      case Task_delete d param_id (p_id user) isAdmin of
        (d', Inr deleted) \<Rightarrow>
          if \<not> deleted then (d', json 404 False (Some ''Task not found'') NoData)
          else (d', json 200 True (Some ''Task deleted successfully'') NoData)
      | (d', Inl err) \<Rightarrow> (d', catch_not_found err))"

text \<open>The task rows of the list a response carries.\<close>

definition listed_tasks :: "outcome \<Rightarrow> task_row list" where
  "listed_tasks out =
     (case out of
        Next err \<Rightarrow> []
      | Respond r \<Rightarrow>
          (case r_data r of
             TaskRows ts pg \<Rightarrow> ts
           | TaskViews vs pg \<Rightarrow> map tv_task vs
           | _ \<Rightarrow> []))"

section \<open>The error-handling middleware\<close>

text \<open>
  Modelled from the spec: \<open>errorHandler\<close> of middleware/errorHandler.js, the function
  that answers an error handed to \<open>next\<close>; the file is not among the sources. The
  spec's error taxonomy gives the statuses: a duplicate identity reported by the
  store is HTTP 400, an invalid or expired token is HTTP 401, every other failure is
  an internal failure, HTTP 500, whose detail is not sent to the client.
\<close>

definition errorHandler :: "error \<Rightarrow> response" where
  "errorHandler err =
     (case err of
        DriverError code m \<Rightarrow>
          if code = ''ER_DUP_ENTRY''
            then \<lparr>r_status = 400, r_success = False, r_message = Some ''Duplicate identity'',
                  r_data = NoData\<rparr>
          else \<lparr>r_status = 500, r_success = False, r_message = Some ''Server Error'',
                r_data = NoData\<rparr>
      | JsError m \<Rightarrow>
          if m = ''Invalid or expired token'' \<or> m = ''Invalid or expired refresh token''
            then \<lparr>r_status = 401, r_success = False, r_message = Some m, r_data = NoData\<rparr>
          else \<lparr>r_status = 500, r_success = False, r_message = Some ''Server Error'',
                r_data = NoData\<rparr>
      | JsTypeError m \<Rightarrow>
          \<lparr>r_status = 500, r_success = False, r_message = Some ''Server Error'',
           r_data = NoData\<rparr>)"

text \<open>The response the client receives.\<close>

definition sent :: "outcome \<Rightarrow> response" where
  "sent out = (case out of Respond r \<Rightarrow> r | Next err \<Rightarrow> errorHandler err)"

section \<open>A sample deployment\<close>

text \<open>
  One administrator and two users, each of the users owning one task; the theorems
  below are instantiated on it.
\<close>

definition env0 :: env where
  "env0 = \<lparr>JWT_SECRET = ''access-secret'', JWT_EXPIRE = None,
            JWT_REFRESH_SECRET = ''refresh-secret'', JWT_REFRESH_EXPIRE = None,
            BCRYPT_ROUNDS = None\<rparr>"

definition root_row :: user_row where
  "root_row = \<lparr>u_id = 1, u_username = ''root'', u_email = ''root@x.com'',
                u_password = Bcrypt 10 ''admin123'', u_role = RAdmin, u_created_at = 0\<rparr>"

definition alice_row :: user_row where
  "alice_row = \<lparr>u_id = 2, u_username = ''alice'', u_email = ''alice@x.com'',
                 u_password = Bcrypt 10 ''Passw0rd1'', u_role = RUser, u_created_at = 1\<rparr>"

definition bob_row :: user_row where
  "bob_row = \<lparr>u_id = 3, u_username = ''bob'', u_email = ''bob@x.com'',
               u_password = Bcrypt 10 ''Passw0rd2'', u_role = RUser, u_created_at = 2\<rparr>"

definition task1 :: task_row where
  "task1 = \<lparr>t_id = 1, t_title = ''T1'', t_description = None, t_status = Pending,
             t_priority = Medium, t_due_date = None, t_user_id = 2, t_created_at = 5\<rparr>"

definition task2 :: task_row where
  "task2 = \<lparr>t_id = 2, t_title = ''T2'', t_description = None, t_status = Completed,
             t_priority = High, t_due_date = None, t_user_id = 3, t_created_at = 6\<rparr>"

definition db0 :: db where
  "db0 = \<lparr>users = [root_row, alice_row, bob_row], tasks = [task1, task2],
           users_auto_increment = 4, tasks_auto_increment = 3\<rparr>"

definition root :: principal where
  "root = \<lparr>p_id = 1, p_role = RAdmin\<rparr>"

definition alice :: principal where
  "alice = \<lparr>p_id = 2, p_role = RUser\<rparr>"

definition bob :: principal where
  "bob = \<lparr>p_id = 3, p_role = RUser\<rparr>"

definition mallory_body :: register_body where
  "mallory_body = \<lparr>rb_username = ''mallory'', rb_email = ''mallory@x.com'',
                    rb_password = ''Passw0rd3'', rb_role = Some RAdmin\<rparr>"

definition taken_name_body :: register_body where
  "taken_name_body = \<lparr>rb_username = ''alice'', rb_email = ''alice2@x.com'',
                       rb_password = ''Passw0rd4'', rb_role = None\<rparr>"

definition taken_email_body :: register_body where
  "taken_email_body = \<lparr>rb_username = ''alice2'', rb_email = ''alice@x.com'',
                        rb_password = ''Passw0rd4'', rb_role = None\<rparr>"

text \<open>
  A refresh token for alice, valid under the refresh secret until time 1000, whose
  claims carry the role admin.
\<close>

definition stale_token :: jwt where
  "stale_token =
     \<lparr>jwt_claims = \<lparr>c_id = 2, c_role = Some RAdmin, c_iat = 0, c_exp = 1000\<rparr>,
      jwt_tag = HS256 (hmac_key ''refresh-secret'')
                  \<lparr>c_id = 2, c_role = Some RAdmin, c_iat = 0, c_exp = 1000\<rparr>\<rparr>"

text \<open>An update of alice's row that also names the columns \<open>password\<close> and \<open>id\<close>.\<close>

definition rename_updates :: "(string \<times> jsval) list" where
  "rename_updates =
     [(''username'', Some ''alice2''), (''password'', Some ''hacked''), (''id'', Some ''9'')]"

definition q_all :: task_query where
  "q_all = \<lparr>q_limit = None, q_offset = None, q_status = None, q_priority = None\<rparr>"

definition full_body :: task_body where
  "full_body = \<lparr>b_title = Some ''T1 done'', b_description = Some ''all of it'',
                 b_status = Some Completed, b_priority = Some Low,
                 b_due_date = Some ''2026-01-01''\<rparr>"

text \<open>
  A deployment whose access secret has 74 bytes and whose refresh secret is the
  SHA-256 digest of the access secret (the 32 bytes 71 23 24 67 7c 75 e3 a9 92 10
  c9 ae 12 37 61 e2 a3 8c 25 c8 b8 2c 12 71 0d 66 04 0a 7e 6a 53 2d, a string of
  well-formed UTF-8 without a zero byte), and the refresh token it issues for
  alice at time 100.
\<close>

definition long_secret :: string where
  "long_secret =
     ''task-api-access-token-secret-that-is-longer-than-64-bytes-long-00018516018''"

definition long_env :: env where
  "long_env = \<lparr>JWT_SECRET = long_secret, JWT_EXPIRE = None,
                JWT_REFRESH_SECRET = sha256 long_secret, JWT_REFRESH_EXPIRE = None,
                BCRYPT_ROUNDS = None\<rparr>"

definition long_refresh_token :: jwt where
  "long_refresh_token =
     \<lparr>jwt_claims = \<lparr>c_id = 2, c_role = None, c_iat = 100, c_exp = 100 + days 30\<rparr>,
      jwt_tag = HS256 (hmac_key (sha256 long_secret))
                  \<lparr>c_id = 2, c_role = None, c_iat = 100, c_exp = 100 + days 30\<rparr>\<rparr>"

text \<open>A store in which the administrator owns a task.\<close>

definition task3 :: task_row where
  "task3 = \<lparr>t_id = 3, t_title = ''T3'', t_description = None, t_status = Pending,
             t_priority = Low, t_due_date = None, t_user_id = 1, t_created_at = 7\<rparr>"

definition db1 :: db where
  "db1 = \<lparr>users = [root_row, alice_row, bob_row], tasks = [task1, task2, task3],
           users_auto_increment = 4, tasks_auto_increment = 4\<rparr>"

text \<open>A body of \<open>PUT /tasks/:id\<close> that sets the status and nothing else.\<close>

definition status_body :: task_body where
  "status_body = \<lparr>b_title = None, b_description = None, b_status = Some Completed,
                   b_priority = None, b_due_date = None\<rparr>"

section \<open>Token issue and user creation\<close>

lemma generateAccessToken_ok:
  assumes "JWT_SECRET e \<noteq> []"
  shows "\<exists>t. generateAccessToken e now p = Inr t \<and> c_id (jwt_claims t) = pl_id p
           \<and> c_role (jwt_claims t) = pl_role p
           \<and> jwt_tag t = HS256 (hmac_key (JWT_SECRET e)) (jwt_claims t)"
  using assms by (simp add: generateAccessToken_def jwt_sign_def Let_def)

lemma generateRefreshToken_ok:
  assumes "JWT_REFRESH_SECRET e \<noteq> []"
  shows "\<exists>t. generateRefreshToken e now p = Inr t \<and> c_id (jwt_claims t) = pl_id p
           \<and> c_role (jwt_claims t) = pl_role p
           \<and> jwt_tag t = HS256 (hmac_key (JWT_REFRESH_SECRET e)) (jwt_claims t)"
  using assms by (simp add: generateRefreshToken_def jwt_sign_def Let_def)

lemma User_findByEmail_None:
  "User_findByEmail d em = None \<longleftrightarrow> \<not> (\<exists>u \<in> set (users d). u_email u = em)"
  by (auto simp add: User_findByEmail_def find_None_iff)

lemma User_create_fresh:
  assumes "\<not> (\<exists>u \<in> set (users d). u_username u = un)"
      and "\<not> (\<exists>u \<in> set (users d). u_email u = em)"
  shows "User_create e d now un em pw r =
     (d\<lparr>users := users d @
           [\<lparr>u_id = users_auto_increment d, u_username = un, u_email = em,
             u_password = bcrypt_hash pw (bcrypt_rounds e),
             u_role = (case r of None \<Rightarrow> RUser | Some x \<Rightarrow> x), u_created_at = now\<rparr>],
         users_auto_increment := Suc (users_auto_increment d)\<rparr>,
      Inr \<lparr>i_id = users_auto_increment d, i_username = un, i_email = em,
           i_role = (case r of None \<Rightarrow> RUser | Some x \<Rightarrow> x)\<rparr>)"
  using assms by (simp add: User_create_def insert_user_def Let_def)

lemma generateRefreshToken_claims:
  "generateRefreshToken e now p = Inr t \<Longrightarrow>
     c_id (jwt_claims t) = pl_id p \<and> c_role (jwt_claims t) = pl_role p
     \<and> jwt_tag t = HS256 (hmac_key (JWT_REFRESH_SECRET e)) (jwt_claims t) \<and> JWT_REFRESH_SECRET e \<noteq> []"
  by (auto simp add: generateRefreshToken_def jwt_sign_def Let_def split: if_splits)

lemma generateAccessToken_claims:
  "generateAccessToken e now p = Inr t \<Longrightarrow>
     c_id (jwt_claims t) = pl_id p \<and> c_role (jwt_claims t) = pl_role p
     \<and> jwt_tag t = HS256 (hmac_key (JWT_SECRET e)) (jwt_claims t) \<and> JWT_SECRET e \<noteq> []"
  by (auto simp add: generateAccessToken_def jwt_sign_def Let_def split: if_splits)

lemma json_inject:
  "json st ok msg dat = json st' ok' msg' dat' \<longleftrightarrow>
     st = st' \<and> ok = ok' \<and> msg = msg' \<and> dat = dat'"
  by (auto simp add: json_def)

lemma json_not_Next: "json st ok msg dat \<noteq> Next err"
  by (simp add: json_def)

text \<open>A registration with a new user name and a new email address, the secrets set.\<close>

lemma register_fresh:
  assumes email: "\<not> (\<exists>u \<in> set (users d). u_email u = rb_email body)"
    and username: "\<not> (\<exists>u \<in> set (users d). u_username u = rb_username body)"
    and secrets: "JWT_SECRET e \<noteq> []" "JWT_REFRESH_SECRET e \<noteq> []"
  shows "\<exists>a b.
     generateAccessToken e now
       \<lparr>pl_id = users_auto_increment d,
         pl_role = Some (case rb_role body of None \<Rightarrow> RUser | Some x \<Rightarrow> x)\<rparr> = Inr a
     \<and> generateRefreshToken e now \<lparr>pl_id = users_auto_increment d, pl_role = None\<rparr> = Inr b
     \<and> register e d now body =
       (d\<lparr>users := users d @
             [\<lparr>u_id = users_auto_increment d, u_username = rb_username body,
               u_email = rb_email body,
               u_password = bcrypt_hash (rb_password body) (bcrypt_rounds e),
               u_role = (case rb_role body of None \<Rightarrow> RUser | Some x \<Rightarrow> x),
               u_created_at = now\<rparr>],
           users_auto_increment := Suc (users_auto_increment d)\<rparr>,
        json 201 True (Some ''User registered successfully'')
          (AuthData \<lparr>i_id = users_auto_increment d, i_username = rb_username body,
                     i_email = rb_email body,
                     i_role = (case rb_role body of None \<Rightarrow> RUser | Some x \<Rightarrow> x)\<rparr> a b))"
proof -
  obtain a where a: "generateAccessToken e now
        \<lparr>pl_id = users_auto_increment d,
          pl_role = Some (case rb_role body of None \<Rightarrow> RUser | Some x \<Rightarrow> x)\<rparr> = Inr a"
    using generateAccessToken_ok [OF secrets(1)] by blast
  obtain b where b: "generateRefreshToken e now
        \<lparr>pl_id = users_auto_increment d, pl_role = None\<rparr> = Inr b"
    using generateRefreshToken_ok [OF secrets(2)] by blast
  have f: "User_findByEmail d (rb_email body) = None"
    using email by (simp add: User_findByEmail_None)
  have "register e d now body =
       (d\<lparr>users := users d @
             [\<lparr>u_id = users_auto_increment d, u_username = rb_username body,
               u_email = rb_email body,
               u_password = bcrypt_hash (rb_password body) (bcrypt_rounds e),
               u_role = (case rb_role body of None \<Rightarrow> RUser | Some x \<Rightarrow> x),
               u_created_at = now\<rparr>],
           users_auto_increment := Suc (users_auto_increment d)\<rparr>,
        json 201 True (Some ''User registered successfully'')
          (AuthData \<lparr>i_id = users_auto_increment d, i_username = rb_username body,
                     i_email = rb_email body,
                     i_role = (case rb_role body of None \<Rightarrow> RUser | Some x \<Rightarrow> x)\<rparr> a b))"
    by (simp add: register_def f User_create_fresh [OF username email] a b)
  with a b show ?thesis by blast
qed

lemma mallory_fresh:
  "\<not> (\<exists>u \<in> set (users db0). u_email u = rb_email mallory_body)"
  "\<not> (\<exists>u \<in> set (users db0). u_username u = rb_username mallory_body)"
  "JWT_SECRET env0 \<noteq> []" "JWT_REFRESH_SECRET env0 \<noteq> []"
  by (simp_all add: mallory_body_def db0_def root_row_def alice_row_def bob_row_def env0_def)

section \<open>Registration\<close>

text \<open>
  Claim C2. \<open>register\<close> takes no principal and passes the role of the request body
  to \<open>User.create\<close> unchecked: a request that asks for the role admin, with a user name
  and an email address nobody holds, is answered 201 (the two secrets being set); the
  row it adds to \<open>users\<close> has the role admin, and so have the user of the response and
  the claims of the access token, which is signed under the access secret.
\<close>

theorem C2_register_forwards_role:
  assumes role: "rb_role body = Some RAdmin"
    and email: "\<not> (\<exists>u \<in> set (users d). u_email u = rb_email body)"
    and username: "\<not> (\<exists>u \<in> set (users d). u_username u = rb_username body)"
    and secrets: "JWT_SECRET e \<noteq> []" "JWT_REFRESH_SECRET e \<noteq> []"
  shows "\<exists>accessToken refreshToken.
     register e d now body =
       (d\<lparr>users := users d @
             [\<lparr>u_id = users_auto_increment d, u_username = rb_username body,
               u_email = rb_email body,
               u_password = bcrypt_hash (rb_password body) (bcrypt_rounds e),
               u_role = RAdmin, u_created_at = now\<rparr>],
           users_auto_increment := Suc (users_auto_increment d)\<rparr>,
        json 201 True (Some ''User registered successfully'')
          (AuthData \<lparr>i_id = users_auto_increment d, i_username = rb_username body,
                     i_email = rb_email body, i_role = RAdmin\<rparr>
             accessToken refreshToken))
     \<and> c_id (jwt_claims accessToken) = users_auto_increment d
     \<and> c_role (jwt_claims accessToken) = Some RAdmin
     \<and> jwt_tag accessToken = HS256 (hmac_key (JWT_SECRET e)) (jwt_claims accessToken)"
proof -
  obtain a b where ab: "generateAccessToken e now
        \<lparr>pl_id = users_auto_increment d, pl_role = Some RAdmin\<rparr> = Inr a"
     and r: "register e d now body =
       (d\<lparr>users := users d @
             [\<lparr>u_id = users_auto_increment d, u_username = rb_username body,
               u_email = rb_email body,
               u_password = bcrypt_hash (rb_password body) (bcrypt_rounds e),
               u_role = RAdmin, u_created_at = now\<rparr>],
           users_auto_increment := Suc (users_auto_increment d)\<rparr>,
        json 201 True (Some ''User registered successfully'')
          (AuthData \<lparr>i_id = users_auto_increment d, i_username = rb_username body,
                     i_email = rb_email body, i_role = RAdmin\<rparr> a b))"
    using register_fresh [OF email username secrets, of now] by (auto simp add: role)
  from generateAccessToken_claims [OF ab] r show ?thesis by auto
qed

theorem C2_register_forwards_role_witness:
  "\<exists>accessToken refreshToken.
     register env0 db0 100 mallory_body =
       (db0\<lparr>users := users db0 @
             [\<lparr>u_id = 4, u_username = ''mallory'', u_email = ''mallory@x.com'',
               u_password = Bcrypt 10 ''Passw0rd3'', u_role = RAdmin,
               u_created_at = 100\<rparr>],
           users_auto_increment := 5\<rparr>,
        json 201 True (Some ''User registered successfully'')
          (AuthData \<lparr>i_id = 4, i_username = ''mallory'', i_email = ''mallory@x.com'',
                     i_role = RAdmin\<rparr>
             accessToken refreshToken))
     \<and> c_id (jwt_claims accessToken) = 4
     \<and> c_role (jwt_claims accessToken) = Some RAdmin
     \<and> jwt_tag accessToken = HS256 (hmac_key ''access-secret'') (jwt_claims accessToken)"
  using C2_register_forwards_role [of mallory_body db0 env0 100]
  by (simp add: mallory_body_def db0_def env0_def root_row_def alice_row_def bob_row_def
        bcrypt_hash_def bcrypt_rounds_def)

lemma insert_user_dup_username:
  assumes "\<exists>u \<in> set (users d). u_username u = un"
  shows "insert_user d now un em pw r = (d, Inl (dup_entry un ''users.username''))"
  using assms by (simp add: insert_user_def)

text \<open>
  Claim C3. A registration whose email address is held by a user is answered 400 by
  \<open>register\<close> itself; one whose user name is held (the email address being new) reaches
  \<open>User.create\<close>, where the INSERT fails on the UNIQUE constraint, and the driver's
  error goes to the error-handling middleware, which answers 400. In both cases the
  store is left as it was. The answer is 201 only when neither is held, and it is 201
  then (the two secrets being set), with one row more in \<open>users\<close>.
\<close>

theorem C3_register_duplicate_identity:
  "((\<exists>u \<in> set (users d). u_email u = rb_email body) \<longrightarrow>
      register e d now body =
        (d, json 400 False (Some ''User with this email already exists'') NoData))
   \<and> ((\<exists>u \<in> set (users d). u_username u = rb_username body)
        \<and> \<not> (\<exists>u \<in> set (users d). u_email u = rb_email body) \<longrightarrow>
      register e d now body = (d, Next (dup_entry (rb_username body) ''users.username'')))
   \<and> ((\<exists>u \<in> set (users d). u_username u = rb_username body \<or> u_email u = rb_email body) \<longrightarrow>
      fst (register e d now body) = d
      \<and> r_status (sent (snd (register e d now body))) = 400
      \<and> \<not> r_success (sent (snd (register e d now body))))
   \<and> (r_status (sent (snd (register e d now body))) = 201 \<longrightarrow>
      \<not> (\<exists>u \<in> set (users d). u_username u = rb_username body \<or> u_email u = rb_email body))
   \<and> (\<not> (\<exists>u \<in> set (users d). u_username u = rb_username body \<or> u_email u = rb_email body)
        \<and> JWT_SECRET e \<noteq> [] \<and> JWT_REFRESH_SECRET e \<noteq> [] \<longrightarrow>
      r_status (sent (snd (register e d now body))) = 201
      \<and> length (users (fst (register e d now body))) = Suc (length (users d)))"
proof -
  have em: "register e d now body =
        (d, json 400 False (Some ''User with this email already exists'') NoData)"
    if "\<exists>u \<in> set (users d). u_email u = rb_email body"
  proof -
    from that obtain x where "User_findByEmail d (rb_email body) = Some x"
      using User_findByEmail_None [of d "rb_email body"] by (cases "User_findByEmail d (rb_email body)") auto
    then show ?thesis by (simp add: register_def)
  qed
  have un: "register e d now body = (d, Next (dup_entry (rb_username body) ''users.username''))"
    if "\<exists>u \<in> set (users d). u_username u = rb_username body"
      and "\<not> (\<exists>u \<in> set (users d). u_email u = rb_email body)"
  proof -
    have "User_findByEmail d (rb_email body) = None"
      using that(2) by (simp add: User_findByEmail_None)
    then show ?thesis
      by (simp add: register_def User_create_def insert_user_dup_username [OF that(1)] Let_def)
  qed
  have dup: "fst (register e d now body) = d
      \<and> r_status (sent (snd (register e d now body))) = 400
      \<and> \<not> r_success (sent (snd (register e d now body)))"
    if "\<exists>u \<in> set (users d). u_username u = rb_username body \<or> u_email u = rb_email body"
  proof (cases "\<exists>u \<in> set (users d). u_email u = rb_email body")
    case True
    then show ?thesis by (simp add: em sent_def json_def)
  next
    case False
    with that have "\<exists>u \<in> set (users d). u_username u = rb_username body" by blast
    then show ?thesis using False
      by (simp add: un sent_def errorHandler_def dup_entry_def)
  qed
  have ok: "r_status (sent (snd (register e d now body))) = 201
      \<and> length (users (fst (register e d now body))) = Suc (length (users d))"
    if fresh: "\<not> (\<exists>u \<in> set (users d). u_username u = rb_username body \<or> u_email u = rb_email body)"
      and s1: "JWT_SECRET e \<noteq> []" and s2: "JWT_REFRESH_SECRET e \<noteq> []"
  proof -
    have u: "\<not> (\<exists>u \<in> set (users d). u_username u = rb_username body)"
      and m: "\<not> (\<exists>u \<in> set (users d). u_email u = rb_email body)"
      using fresh by blast+
    have f: "User_findByEmail d (rb_email body) = None"
      using m by (simp add: User_findByEmail_None)
    obtain a where a: "generateAccessToken e now
        \<lparr>pl_id = users_auto_increment d,
          pl_role = Some (case rb_role body of None \<Rightarrow> RUser | Some x \<Rightarrow> x)\<rparr> = Inr a"
      using generateAccessToken_ok [OF s1] by blast
    obtain b where b: "generateRefreshToken e now
        \<lparr>pl_id = users_auto_increment d, pl_role = None\<rparr> = Inr b"
      using generateRefreshToken_ok [OF s2] by blast
    show ?thesis
      by (simp add: register_def f User_create_fresh [OF u m] a b sent_def json_def)
  qed
  from dup have only: "\<not> (\<exists>u \<in> set (users d). u_username u = rb_username body \<or> u_email u = rb_email body)"
    if "r_status (sent (snd (register e d now body))) = 201"
    using that by auto
  show ?thesis using em un dup ok only by blast
qed

theorem C3_register_duplicate_identity_witness:
  "register env0 db0 100 taken_email_body =
     (db0, json 400 False (Some ''User with this email already exists'') NoData)
   \<and> register env0 db0 100 taken_name_body =
     (db0, Next (dup_entry (rb_username taken_name_body) ''users.username''))
   \<and> r_status (sent (snd (register env0 db0 100 taken_name_body))) = 400
   \<and> r_status (sent (snd (register env0 db0 100 mallory_body))) = 201"
proof -
  have e: "\<exists>u \<in> set (users db0). u_email u = rb_email taken_email_body"
    by (simp add: taken_email_body_def db0_def alice_row_def)
  have n: "\<exists>u \<in> set (users db0). u_username u = rb_username taken_name_body"
    by (simp add: taken_name_body_def db0_def alice_row_def)
  have n': "\<not> (\<exists>u \<in> set (users db0). u_email u = rb_email taken_name_body)"
    by (simp add: taken_name_body_def db0_def root_row_def alice_row_def bob_row_def)
  have m: "\<not> (\<exists>u \<in> set (users db0).
              u_username u = rb_username mallory_body \<or> u_email u = rb_email mallory_body)"
    by (simp add: mallory_body_def db0_def root_row_def alice_row_def bob_row_def)
  have s: "JWT_SECRET env0 \<noteq> []" "JWT_REFRESH_SECRET env0 \<noteq> []"
    by (simp_all add: env0_def)
  show ?thesis
    using e n n' m s
      C3_register_duplicate_identity [of db0 taken_email_body env0 100]
      C3_register_duplicate_identity [of db0 taken_name_body env0 100]
      C3_register_duplicate_identity [of db0 mallory_body env0 100]
    by blast
qed

section \<open>Tokens\<close>

lemma register_refresh_no_role:
  assumes "register e d now body = (d', json st ok msg (AuthData u a rt))"
  shows "c_role (jwt_claims rt) = None \<and> c_id (jwt_claims rt) = i_id u"
  using assms
  by (auto simp add: register_def json_inject json_not_Next json_not_Next [symmetric]
        dest!: generateRefreshToken_claims
        split: option.splits prod.splits sum.splits)

lemma login_refresh_no_role:
  assumes "login e d now em pw = json st ok msg (AuthData u a rt)"
  shows "c_role (jwt_claims rt) = None \<and> c_id (jwt_claims rt) = i_id u"
  using assms
  by (auto simp add: login_def json_inject json_not_Next json_not_Next [symmetric]
        info_of_row_def
        dest!: generateRefreshToken_claims
        split: option.splits prod.splits sum.splits if_splits)

lemma refresh_rereads_role:
  assumes v: "verifyRefreshToken e now t = Inr c"
    and u: "find (\<lambda>u. u_id u = c_id c) (users d) = Some u"
    and s: "JWT_SECRET e \<noteq> []"
  shows "\<exists>a. refreshToken e d now (Some t) =
            json 200 True (Some ''Token refreshed successfully'') (AccessTokenData a)
          \<and> c_id (jwt_claims a) = u_id u \<and> c_role (jwt_claims a) = Some (u_role u)"
proof -
  have f: "User_findById d (c_id c) = Some (public_of u)"
    using u by (simp add: User_findById_def)
  obtain a where a: "generateAccessToken e now
       \<lparr>pl_id = pu_id (public_of u), pl_role = Some (pu_role (public_of u))\<rparr> = Inr a"
     "c_id (jwt_claims a) = pu_id (public_of u)"
     "c_role (jwt_claims a) = Some (pu_role (public_of u))"
    using generateAccessToken_ok [OF s, of now
       "\<lparr>pl_id = pu_id (public_of u), pl_role = Some (pu_role (public_of u))\<rparr>"] by auto
  have "refreshToken e d now (Some t) =
      json 200 True (Some ''Token refreshed successfully'') (AccessTokenData a)"
    by (simp add: refreshToken_def v f a(1))
  with a(2,3) show ?thesis by (auto simp add: public_of_def)
qed

lemma login_alice:
  "\<exists>a rt. login env0 db0 100 ''alice@x.com'' ''Passw0rd1'' =
     json 200 True (Some ''Login successful'') (AuthData (info_of_row alice_row) a rt)"
  by (simp add: login_def User_findByEmail_def db0_def root_row_def alice_row_def
        User_verifyPassword_def generateAccessToken_def generateRefreshToken_def
        jwt_sign_def env0_def Let_def json_inject)

lemma stale_token_verifies:
  "verifyRefreshToken env0 500 stale_token = Inr (jwt_claims stale_token)"
  by (simp add: verifyRefreshToken_def jwt_verify_def env0_def stale_token_def)

text \<open>
  Claim C6. The refresh token that \<open>register\<close> and \<open>login\<close> put in a response has no
  role among its claims, only the id of the user. And \<open>refreshToken\<close> reads nothing
  but the id from the claims of the token it verified: the role in the new access
  token is the role of the row that \<open>users\<close> holds under that id at the time of the
  request, whatever role claim the refresh token may carry.
\<close>

theorem C6_refresh_rereads_role:
  "(register e d now body = (d', json st ok msg (AuthData u a rt)) \<longrightarrow>
      c_role (jwt_claims rt) = None \<and> c_id (jwt_claims rt) = i_id u)
   \<and> (login e d now em pw = json st ok msg (AuthData u a rt) \<longrightarrow>
      c_role (jwt_claims rt) = None \<and> c_id (jwt_claims rt) = i_id u)
   \<and> (verifyRefreshToken e now t = Inr c
        \<and> find (\<lambda>x. u_id x = c_id c) (users d) = Some row \<and> JWT_SECRET e \<noteq> [] \<longrightarrow>
      (\<exists>new. refreshToken e d now (Some t) =
            json 200 True (Some ''Token refreshed successfully'') (AccessTokenData new)
          \<and> c_id (jwt_claims new) = u_id row \<and> c_role (jwt_claims new) = Some (u_role row)))"
  using register_refresh_no_role [of e d now body d' st ok msg u a rt]
    login_refresh_no_role [of e d now em pw st ok msg u a rt]
    refresh_rereads_role [of e now t c d row]
  by blast

theorem C6_refresh_rereads_role_witness:
  "(\<exists>d' u a rt. register env0 db0 100 mallory_body =
        (d', json 201 True (Some ''User registered successfully'') (AuthData u a rt))
      \<and> c_role (jwt_claims rt) = None \<and> c_id (jwt_claims rt) = i_id u)
   \<and> (\<exists>u a rt. login env0 db0 100 ''alice@x.com'' ''Passw0rd1'' =
        json 200 True (Some ''Login successful'') (AuthData u a rt)
      \<and> c_role (jwt_claims rt) = None \<and> c_id (jwt_claims rt) = i_id u)
   \<and> c_role (jwt_claims stale_token) = Some RAdmin
   \<and> (\<exists>new. refreshToken env0 db0 500 (Some stale_token) =
        json 200 True (Some ''Token refreshed successfully'') (AccessTokenData new)
      \<and> c_id (jwt_claims new) = 2 \<and> c_role (jwt_claims new) = Some RUser)"
proof -
  obtain d' u a rt where r: "register env0 db0 100 mallory_body =
      (d', json 201 True (Some ''User registered successfully'') (AuthData u a rt))"
    using register_fresh [OF mallory_fresh, of 100] by blast
  have 1: "c_role (jwt_claims rt) = None \<and> c_id (jwt_claims rt) = i_id u"
    using r C6_refresh_rereads_role [of env0 db0 100 mallory_body d' 201 True
        "Some ''User registered successfully''" u a rt]
    by blast
  obtain a' rt' where l: "login env0 db0 100 ''alice@x.com'' ''Passw0rd1'' =
      json 200 True (Some ''Login successful'') (AuthData (info_of_row alice_row) a' rt')"
    using login_alice by blast
  have 2: "c_role (jwt_claims rt') = None \<and> c_id (jwt_claims rt') = i_id (info_of_row alice_row)"
    using l C6_refresh_rereads_role [of env0 db0 100 _ _ 200 True
        "Some ''Login successful''" "info_of_row alice_row" a' rt' "''alice@x.com''"
        "''Passw0rd1''"]
    by blast
  have f: "find (\<lambda>x. u_id x = c_id (jwt_claims stale_token)) (users db0) = Some alice_row"
    by (simp add: stale_token_def db0_def root_row_def alice_row_def)
  have s: "JWT_SECRET env0 \<noteq> []" by (simp add: env0_def)
  have "\<exists>new. refreshToken env0 db0 500 (Some stale_token) =
        json 200 True (Some ''Token refreshed successfully'') (AccessTokenData new)
      \<and> c_id (jwt_claims new) = u_id alice_row
      \<and> c_role (jwt_claims new) = Some (u_role alice_row)"
    using stale_token_verifies f s
      C6_refresh_rereads_role [of env0 db0 500 _ _ _ _ _ _ _ _ _ _ stale_token
        "jwt_claims stale_token" alice_row]
    by blast
  then have 3: "\<exists>new. refreshToken env0 db0 500 (Some stale_token) =
        json 200 True (Some ''Token refreshed successfully'') (AccessTokenData new)
      \<and> c_id (jwt_claims new) = 2 \<and> c_role (jwt_claims new) = Some RUser"
    by (simp add: alice_row_def)
  have 4: "c_role (jwt_claims stale_token) = Some RAdmin"
    by (simp add: stale_token_def)
  from r 1 l 2 3 4 show ?thesis by blast
qed

lemma length_sha_digest: "length (sha_digest s) = 32"
  by (induction s rule: sha_digest.induct) (simp add: be_bytes_def)

lemma length_sha256: "length (sha256 m) = 32"
  by (simp add: sha256_def Let_def length_sha_digest)

lemma hmac_key_short:
  "length secret \<le> 64 \<Longrightarrow>
     hmac_key secret = secret @ replicate (64 - length secret) (CHR 0x00)"
  by (simp add: hmac_key_def)

lemma hmac_key_long:
  "length secret > 64 \<Longrightarrow> hmac_key secret = hmac_key (sha256 secret)"
  by (simp add: hmac_key_def length_sha256)

lemma takeWhile_padded:
  assumes "z \<notin> set k"
  shows "takeWhile (\<lambda>c. c \<noteq> z) (k @ replicate n z) = k"
proof -
  have r: "takeWhile (\<lambda>c. c \<noteq> z) (replicate n z) = []"
    by (cases n) simp_all
  from assms show ?thesis
    by (induction k) (auto simp add: r)
qed

lemma hmac_key_short_inject:
  assumes "length a \<le> 64" and "length b \<le> 64"
    and "CHR 0x00 \<notin> set a" and "CHR 0x00 \<notin> set b"
    and "hmac_key a = hmac_key b"
  shows "a = b"
proof -
  from assms(1,2,5)
  have "a @ replicate (64 - length a) (CHR 0x00) = b @ replicate (64 - length b) (CHR 0x00)"
    by (simp add: hmac_key_short)
  then have "takeWhile (\<lambda>c. c \<noteq> CHR 0x00) (a @ replicate (64 - length a) (CHR 0x00))
           = takeWhile (\<lambda>c. c \<noteq> CHR 0x00) (b @ replicate (64 - length b) (CHR 0x00))"
    by simp
  then show ?thesis
    by (simp only: takeWhile_padded [OF assms(3)] takeWhile_padded [OF assms(4)])
qed

lemma cross_rejection:
  assumes "hmac_key (JWT_SECRET e) \<noteq> hmac_key (JWT_REFRESH_SECRET e)"
  shows "(generateRefreshToken e now p = Inr t \<longrightarrow>
            verifyAccessToken e now' t = Inl (JsError ''Invalid or expired token''))
       \<and> (generateAccessToken e now p = Inr t \<longrightarrow>
            verifyRefreshToken e now' t = Inl (JsError ''Invalid or expired refresh token''))"
  using assms
  by (auto simp add: verifyAccessToken_def verifyRefreshToken_def jwt_verify_def
         dest!: generateRefreshToken_claims generateAccessToken_claims split: sum.splits)

text \<open>
  Claim C7, as stated, fails. The two secrets of the deployment \<open>long_env\<close> are
  distinct, yet they give the same HMAC key: the access secret is longer than 64
  bytes, so its key is its digest, which is the refresh secret. The refresh token
  issued at time 100 is accepted by \<open>verifyAccessToken\<close> at time 101.
\<close>

theorem C7_long_secret_counterexample:
  "JWT_SECRET long_env \<noteq> JWT_REFRESH_SECRET long_env
   \<and> generateRefreshToken long_env 100 \<lparr>pl_id = 2, pl_role = None\<rparr> = Inr long_refresh_token
   \<and> verifyAccessToken long_env 101 long_refresh_token = Inr (jwt_claims long_refresh_token)"
proof -
  have l: "length long_secret = 74"
    by (simp add: long_secret_def)
  have d: "JWT_SECRET long_env \<noteq> JWT_REFRESH_SECRET long_env"
  proof
    assume "JWT_SECRET long_env = JWT_REFRESH_SECRET long_env"
    then have "length long_secret = length (sha256 long_secret)"
      by (simp add: long_env_def)
    with l show False by (simp add: length_sha256)
  qed
  have n: "sha256 long_secret \<noteq> []"
    using length_sha256 [of long_secret] by auto
  have k: "hmac_key long_secret = hmac_key (sha256 long_secret)"
    using l by (simp add: hmac_key_long)
  have g: "generateRefreshToken long_env 100 \<lparr>pl_id = 2, pl_role = None\<rparr>
             = Inr long_refresh_token"
    using n
    by (simp add: generateRefreshToken_def jwt_sign_def long_env_def long_refresh_token_def
          Let_def)
  have s: "long_secret \<noteq> []"
    using l by auto
  have v: "verifyAccessToken long_env 101 long_refresh_token = Inr (jwt_claims long_refresh_token)"
    using s
    by (simp add: verifyAccessToken_def jwt_verify_def long_env_def long_refresh_token_def k
          days_def)
  from d g v show ?thesis by blast
qed

text \<open>
  Claim C7, amended. When the two secrets give distinct HMAC keys, a token that
  \<open>generateRefreshToken\<close> issued is refused by \<open>verifyAccessToken\<close>, and a token that
  \<open>generateAccessToken\<close> issued is refused by \<open>verifyRefreshToken\<close>, at any time of
  verification; each throws its "Invalid or expired" error. Two distinct secrets of
  at most 64 bytes each, without a zero byte, give distinct HMAC keys.
\<close>

theorem C7_cross_secret_rejection:
  "(hmac_key (JWT_SECRET e) \<noteq> hmac_key (JWT_REFRESH_SECRET e) \<longrightarrow>
      (generateRefreshToken e now p = Inr t \<longrightarrow>
         verifyAccessToken e now' t = Inl (JsError ''Invalid or expired token''))
    \<and> (generateAccessToken e now p = Inr t \<longrightarrow>
         verifyRefreshToken e now' t = Inl (JsError ''Invalid or expired refresh token'')))
   \<and> (JWT_SECRET e \<noteq> JWT_REFRESH_SECRET e
        \<and> length (JWT_SECRET e) \<le> 64 \<and> length (JWT_REFRESH_SECRET e) \<le> 64
        \<and> CHR 0x00 \<notin> set (JWT_SECRET e) \<and> CHR 0x00 \<notin> set (JWT_REFRESH_SECRET e) \<longrightarrow>
      hmac_key (JWT_SECRET e) \<noteq> hmac_key (JWT_REFRESH_SECRET e))"
  using cross_rejection [of e now p t now']
    hmac_key_short_inject [of "JWT_SECRET e" "JWT_REFRESH_SECRET e"]
  by blast

theorem C7_cross_secret_rejection_witness:
  "JWT_SECRET env0 \<noteq> JWT_REFRESH_SECRET env0
   \<and> hmac_key (JWT_SECRET env0) \<noteq> hmac_key (JWT_REFRESH_SECRET env0)
   \<and> (\<exists>t. generateRefreshToken env0 100 \<lparr>pl_id = 2, pl_role = None\<rparr> = Inr t
          \<and> verifyAccessToken env0 101 t = Inl (JsError ''Invalid or expired token''))
   \<and> (\<exists>t. generateAccessToken env0 100 \<lparr>pl_id = 2, pl_role = Some RUser\<rparr> = Inr t
          \<and> verifyRefreshToken env0 101 t =
              Inl (JsError ''Invalid or expired refresh token''))"
proof -
  have d: "JWT_SECRET env0 \<noteq> JWT_REFRESH_SECRET env0"
    and l: "length (JWT_SECRET env0) \<le> 64" "length (JWT_REFRESH_SECRET env0) \<le> 64"
    and z: "CHR 0x00 \<notin> set (JWT_SECRET env0)" "CHR 0x00 \<notin> set (JWT_REFRESH_SECRET env0)"
    by (simp_all add: env0_def)
  obtain r where r: "generateRefreshToken env0 100 \<lparr>pl_id = 2, pl_role = None\<rparr> = Inr r"
    using generateRefreshToken_ok [OF mallory_fresh(4)] by blast
  obtain a where a: "generateAccessToken env0 100 \<lparr>pl_id = 2, pl_role = Some RUser\<rparr> = Inr a"
    using generateAccessToken_ok [OF mallory_fresh(3)] by blast
  from d l z r a
    C7_cross_secret_rejection [of env0 100 "\<lparr>pl_id = 2, pl_role = None\<rparr>" r 101]
    C7_cross_secret_rejection [of env0 100 "\<lparr>pl_id = 2, pl_role = Some RUser\<rparr>" a 101]
  show ?thesis by blast
qed

section \<open>Deleting a user\<close>

lemma deleteUser_guard:
  assumes "parseInt s = Some (int (p_id p))"
  shows "deleteUser d p s =
     (d, json 400 False (Some ''You cannot delete your own account'') NoData)"
  using assms by (simp add: deleteUser_def)

lemma deleteUser_passes:
  assumes "parseInt s \<noteq> Some (int (p_id p))" and "mysql_id s = Inr (Some i)"
    and "\<exists>u \<in> set (users d). u_id u = i"
  shows "deleteUser d p s =
     (d\<lparr>users := filter (\<lambda>u. u_id u \<noteq> i) (users d),
        tasks := filter (\<lambda>t. t_user_id t \<noteq> i) (tasks d)\<rparr>,
      json 200 True (Some ''User deleted successfully'') NoData)"
proof -
  from assms(3) have "filter (\<lambda>u. u_id u = i) (users d) \<noteq> []"
    by (simp add: filter_empty_conv)
  then have "length (filter (\<lambda>u. u_id u = i) (users d)) > 0" by simp
  with assms show ?thesis
    by (simp add: deleteUser_def User_delete_def delete_users_def)
qed

lemma parseInt_0_1e1: "parseInt ''0.1e1'' = Some 0"
  by (simp add: parseInt_def take_sign_def is_ws1_def is_ws2_def is_ws3_def is_digit_def
        decimal_def digit_val_def place_def signed_def)

lemma mysql_id_0_1e1: "mysql_id ''0.1e1'' = Inr (Some 1)"
  by (simp add: mysql_id_def mysql_number_def take_sign_def take_exponent_def is_blank_def
        is_digit_def decimal_def digit_val_def place_def signed_def natural_of_def)

lemma parseInt_2: "parseInt ''2'' = Some 2"
  by (simp add: parseInt_def take_sign_def is_ws1_def is_digit_def decimal_def digit_val_def place_def
        signed_def)

lemma mysql_id_2: "mysql_id ''2'' = Inr (Some 2)"
  by (simp add: mysql_id_def mysql_number_def take_sign_def take_exponent_def is_blank_def
        is_digit_def decimal_def digit_val_def place_def signed_def natural_of_def)

lemma parseInt_1: "parseInt ''1'' = Some 1"
  by (simp add: parseInt_def take_sign_def is_ws1_def is_digit_def decimal_def digit_val_def place_def
        signed_def)

text \<open>
  Claim C8 on the code. The guard of \<open>deleteUser\<close> and the DELETE read the id in
  different ways. For the administrator with id 1 and the parameter \<open>0.1e1\<close>,
  \<open>parseInt\<close> gives 0, which is not the administrator's id, and the server reads 1:
  the request is answered 200, and the administrator's own row is removed together
  with the administrator's task. With the parameter \<open>1\<close> the request is answered 400
  and nothing is removed; with the parameter \<open>2\<close> alice's row and her task are
  removed.
\<close>

theorem C8_self_delete_bypass:
  "p_role root = RAdmin \<and> p_id root = 1
   \<and> parseInt ''0.1e1'' = Some 0 \<and> mysql_id ''0.1e1'' = Inr (Some 1)
   \<and> deleteUser db1 root ''0.1e1'' =
       (db1\<lparr>users := [alice_row, bob_row], tasks := [task1, task2]\<rparr>,
        json 200 True (Some ''User deleted successfully'') NoData)
   \<and> deleteUser db1 root ''1'' =
       (db1, json 400 False (Some ''You cannot delete your own account'') NoData)
   \<and> deleteUser db1 root ''2'' =
       (db1\<lparr>users := [root_row, bob_row], tasks := [task2, task3]\<rparr>,
        json 200 True (Some ''User deleted successfully'') NoData)"
proof -
  have r: "p_role root = RAdmin" "p_id root = 1"
    by (simp_all add: root_def)
  have x: "\<exists>u \<in> set (users db1). u_id u = 1" "\<exists>u \<in> set (users db1). u_id u = 2"
    by (simp_all add: db1_def root_row_def alice_row_def)
  have f1: "filter (\<lambda>u. u_id u \<noteq> Suc 0) (users db1) = [alice_row, bob_row]"
    "filter (\<lambda>t. t_user_id t \<noteq> Suc 0) (tasks db1) = [task1, task2]"
    by (simp_all add: db1_def root_row_def alice_row_def bob_row_def task1_def task2_def
          task3_def)
  have f2: "filter (\<lambda>u. u_id u \<noteq> 2) (users db1) = [root_row, bob_row]"
    "filter (\<lambda>t. t_user_id t \<noteq> 2) (tasks db1) = [task2, task3]"
    by (simp_all add: db1_def root_row_def alice_row_def bob_row_def task1_def task2_def
          task3_def)
  have a: "deleteUser db1 root ''0.1e1'' =
       (db1\<lparr>users := [alice_row, bob_row], tasks := [task1, task2]\<rparr>,
        json 200 True (Some ''User deleted successfully'') NoData)"
    using deleteUser_passes [of "''0.1e1''" root 1 db1] x(1)
    by (simp add: parseInt_0_1e1 mysql_id_0_1e1 r f1)
  have b: "deleteUser db1 root ''1'' =
       (db1, json 400 False (Some ''You cannot delete your own account'') NoData)"
    by (rule deleteUser_guard) (simp add: parseInt_1 r)
  have c: "deleteUser db1 root ''2'' =
       (db1\<lparr>users := [root_row, bob_row], tasks := [task2, task3]\<rparr>,
        json 200 True (Some ''User deleted successfully'') NoData)"
    using deleteUser_passes [of "''2''" root 2 db1] x(2)
    by (simp add: parseInt_2 mysql_id_2 r f2)
  from r a b c show ?thesis
    by (simp add: parseInt_0_1e1 mysql_id_0_1e1)
qed

section \<open>Updating a user\<close>

lemma update_rows_map:
  assumes "update_rows sel upd rs = Inr rs'"
    and "\<And>r r'. sel r \<Longrightarrow> upd r = Inr r' \<Longrightarrow> g r' = g r"
  shows "map g rs' = map g rs"
  using assms(1)
proof (induction rs arbitrary: rs')
  case Nil
  then show ?case by simp
next
  case (Cons r rs)
  then show ?case
    by (auto split: sum.splits if_splits simp add: assms(2))
qed

lemma update_rows_others:
  assumes "update_rows sel upd rs = Inr rs'"
    and "\<And>r r'. sel r \<Longrightarrow> upd r = Inr r' \<Longrightarrow> sel r'"
  shows "filter (\<lambda>r. \<not> sel r) rs' = filter (\<lambda>r. \<not> sel r) rs"
  using assms(1)
proof (induction rs arbitrary: rs')
  case Nil
  then show ?case by simp
next
  case (Cons r rs)
  then show ?case
    by (auto split: sum.splits if_splits simp add: assms(2))
qed


lemma set_user_field_keeps:
  "set_user_field f v r = Inr r' \<Longrightarrow>
     u_id r' = u_id r \<and> u_password r' = u_password r \<and> u_created_at r' = u_created_at r"
  by (auto simp add: set_user_field_def split: if_splits option.splits)

lemma set_user_fields_keeps:
  "set_user_fields as r = Inr r' \<Longrightarrow>
     u_id r' = u_id r \<and> u_password r' = u_password r \<and> u_created_at r' = u_created_at r"
proof (induction as arbitrary: r)
  case Nil
  then show ?case by simp
next
  case (Cons a as)
  obtain f v where a: "a = (f, v)" by (cases a)
  from Cons.prems a obtain r1 where 1: "set_user_field f v r = Inr r1"
    and 2: "set_user_fields as r1 = Inr r'"
    by (auto split: sum.splits)
  from Cons.IH [OF 2] set_user_field_keeps [OF 1] show ?case by simp
qed

lemma update_users_keeps:
  assumes "update_users d sets i = (d', res)"
  shows "map u_id (users d') = map u_id (users d)
       \<and> map u_password (users d') = map u_password (users d)
       \<and> map u_created_at (users d') = map u_created_at (users d)
       \<and> filter (\<lambda>u. u_id u \<noteq> i) (users d') = filter (\<lambda>u. u_id u \<noteq> i) (users d)
       \<and> tasks d' = tasks d"
proof (cases "\<exists>as us. bind sets = Some as
         \<and> update_rows (\<lambda>u. u_id u = i) (set_user_fields as) (users d) = Inr us
         \<and> d' = d\<lparr>users := us\<rparr>")
  case True
  then obtain as us where u: "update_rows (\<lambda>u. u_id u = i) (set_user_fields as) (users d) = Inr us"
    and d': "d' = d\<lparr>users := us\<rparr>" by blast
  have k: "u_id r' = u_id r \<and> u_password r' = u_password r \<and> u_created_at r' = u_created_at r"
    if "set_user_fields as r = Inr r'" for r r'
    using that by (rule set_user_fields_keeps)
  have "map u_id us = map u_id (users d)"
    using u by (rule update_rows_map) (simp add: k)
  moreover have "map u_password us = map u_password (users d)"
    using u by (rule update_rows_map) (simp add: k)
  moreover have "map u_created_at us = map u_created_at (users d)"
    using u by (rule update_rows_map) (simp add: k)
  moreover have "filter (\<lambda>u. \<not> u_id u = i) us = filter (\<lambda>u. \<not> u_id u = i) (users d)"
    using u by (rule update_rows_others) (simp add: k)
  ultimately show ?thesis using d' by simp
next
  case False
  with assms have "d' = d"
    by (auto simp add: update_users_def split: option.splits sum.splits)
  then show ?thesis by simp
qed

lemma User_update_keeps:
  assumes "User_update d i updates = (d', res)"
  shows "map u_id (users d') = map u_id (users d)
       \<and> map u_password (users d') = map u_password (users d)
       \<and> map u_created_at (users d') = map u_created_at (users d)
       \<and> filter (\<lambda>u. u_id u \<noteq> i) (users d') = filter (\<lambda>u. u_id u \<noteq> i) (users d)
       \<and> tasks d' = tasks d"
proof (cases "filter (\<lambda>key. key \<in> set allowedUserFields) (map fst updates) = []")
  case True
  with assms show ?thesis by (simp add: User_update_def)
next
  case False
  obtain d1 r1 where u: "update_users d (map (\<lambda>field. (field, lookup updates field))
        (filter (\<lambda>key. key \<in> set allowedUserFields) (map fst updates))) i = (d1, r1)"
    by fastforce
  with assms False have "d' = d1"
    by (auto simp add: User_update_def Let_def split: sum.splits)
  with update_users_keeps [OF u] show ?thesis by simp
qed

lemma lookup_filter:
  "P f \<Longrightarrow> lookup (filter (\<lambda>(k, v). P k) updates) f = lookup updates f"
  by (induction updates) (auto simp add: lookup_def)

lemma keys_filter:
  "filter P (map fst (filter (\<lambda>(k, v). P k) updates)) = filter P (map fst updates)"
  by (induction updates) auto

lemma User_update_ignores:
  "User_update d i (filter (\<lambda>(k, v). k \<in> set allowedUserFields) updates) = User_update d i updates"
proof -
  let ?P = "\<lambda>key. key \<in> set allowedUserFields"
  have eq: "map (\<lambda>field. (field, lookup (filter (\<lambda>(k, v). ?P k) updates) field))
          (filter ?P (map fst updates))
      = map (\<lambda>field. (field, lookup updates field)) (filter ?P (map fst updates))"
    by (rule map_cong) (auto simp add: lookup_filter [of ?P])
  show ?thesis
    by (simp only: User_update_def Let_def keys_filter [of ?P] eq)
qed

lemma rename_rows:
  "update_rows (\<lambda>u. u_id u = 2) (set_user_fields [(''username'', ''alice2'')]) (users db0)
     = Inr [root_row, alice_row\<lparr>u_username := ''alice2''\<rparr>, bob_row]"
  by (simp add: set_user_field_def db0_def root_row_def alice_row_def bob_row_def)

lemma rename_alice:
  "update_users db0 [(''username'', Some ''alice2'')] 2 =
     (db0\<lparr>users := [root_row, alice_row\<lparr>u_username := ''alice2''\<rparr>, bob_row]\<rparr>, Inr ())"
  by (simp add: update_users_def rename_rows) (simp add: root_row_def alice_row_def bob_row_def)

text \<open>
  Claim C9. \<open>User.update\<close> with no key of the allow-list among the keys of
  \<open>updates\<close> throws "No valid fields to update" and leaves the store as it was. The
  keys outside the allow-list have no effect: the call does what it does on the
  updates restricted to the allow-list. Whatever the updates are, no row changes
  its id, its password or its creation time, the rows under other ids stay as they
  were, and so does table \<open>tasks\<close>.
\<close>

theorem C9_user_update_allow_list:
  "(filter (\<lambda>key. key \<in> set allowedUserFields) (map fst updates) = [] \<longrightarrow>
      User_update d i updates = (d, Inl (JsError ''No valid fields to update'')))
   \<and> User_update d i (filter (\<lambda>(k, v). k \<in> set allowedUserFields) updates) =
       User_update d i updates
   \<and> (User_update d i updates = (d', res) \<longrightarrow>
        map u_id (users d') = map u_id (users d)
      \<and> map u_password (users d') = map u_password (users d)
      \<and> map u_created_at (users d') = map u_created_at (users d)
      \<and> filter (\<lambda>u. u_id u \<noteq> i) (users d') = filter (\<lambda>u. u_id u \<noteq> i) (users d)
      \<and> tasks d' = tasks d)"
  using User_update_keeps [of d i updates d' res] User_update_ignores [of d i updates]
  by (simp add: User_update_def)


theorem C9_user_update_allow_list_witness:
  "User_update db0 2 [(''password'', Some ''hacked'')] =
     (db0, Inl (JsError ''No valid fields to update''))
   \<and> User_update db0 2 rename_updates = User_update db0 2 [(''username'', Some ''alice2'')]
   \<and> map u_password (users (fst (User_update db0 2 rename_updates)))
       = map u_password (users db0)
   \<and> map u_id (users (fst (User_update db0 2 rename_updates))) = map u_id (users db0)
   \<and> map u_username (users (fst (User_update db0 2 rename_updates)))
       = [''root'', ''alice2'', ''bob'']"
proof -
  have 1: "filter (\<lambda>key. key \<in> set allowedUserFields) (map fst [(''password'', Some ''hacked'')]) = []"
    by (simp add: allowedUserFields_def)
  have 2: "filter (\<lambda>(k, v). k \<in> set allowedUserFields) rename_updates
             = [(''username'', Some ''alice2'')]"
    by (simp add: allowedUserFields_def rename_updates_def)
  have 3: "map u_username (users (fst (User_update db0 2 [(''username'', Some ''alice2'')])))
             = [''root'', ''alice2'', ''bob'']"
    by (simp add: User_update_def allowedUserFields_def lookup_def rename_alice)
       (simp add: root_row_def alice_row_def bob_row_def)
  note t1 = C9_user_update_allow_list [of "[(''password'', Some ''hacked'')]" db0 2]
  note t2 = C9_user_update_allow_list [of rename_updates db0 2
      "fst (User_update db0 2 rename_updates)" "snd (User_update db0 2 rename_updates)"]
  from t1 1 have a: "User_update db0 2 [(''password'', Some ''hacked'')] =
     (db0, Inl (JsError ''No valid fields to update''))" by blast
  from t2 2 have b: "User_update db0 2 rename_updates
      = User_update db0 2 [(''username'', Some ''alice2'')]" by simp
  have "User_update db0 2 rename_updates =
      (fst (User_update db0 2 rename_updates), snd (User_update db0 2 rename_updates))"
    by simp
  with t2 have c: "map u_password (users (fst (User_update db0 2 rename_updates)))
       = map u_password (users db0)
     \<and> map u_id (users (fst (User_update db0 2 rename_updates))) = map u_id (users db0)"
    by blast
  from 3 b have d: "map u_username (users (fst (User_update db0 2 rename_updates)))
       = [''root'', ''alice2'', ''bob'']" by simp
  from a b c d show ?thesis by blast
qed

section \<open>Listing tasks\<close>

lemma set_newest_first: "set (newest_first ts) = set ts"
  by (simp add: newest_first_def)

lemma set_page: "set (page limit offset xs) \<subseteq> set xs"
  unfolding page_def
  by (meson set_take_subset set_drop_subset subset_trans)

lemma page_all: "length xs \<le> limit \<Longrightarrow> page limit 0 xs = xs"
  by (simp add: page_def)

lemma tv_task_join: "tv_task (join_user d t) = t"
  by (simp add: join_user_def split: option.splits)

lemma map_tv_task_join: "map (tv_task \<circ> join_user d) ts = ts"
  by (induction ts) (simp_all add: tv_task_join)

lemma getTasks_user:
  assumes "p_role p \<noteq> RAdmin"
  shows "getTasks d p q =
     json 200 True None
       (TaskRows
          (Task_findByUserId d (p_id p)
             \<lparr>o_limit = Some (case q_limit q of None \<Rightarrow> 10 | Some n \<Rightarrow> n),
               o_offset = Some (case q_offset q of None \<Rightarrow> 0 | Some n \<Rightarrow> n),
               o_status = q_status q, o_priority = q_priority q, o_user_id = None\<rparr>)
          \<lparr>pg_total = Task_count d (Some (p_id p)) (q_status q) (q_priority q),
            pg_limit = (case q_limit q of None \<Rightarrow> 10 | Some n \<Rightarrow> n),
            pg_offset = (case q_offset q of None \<Rightarrow> 0 | Some n \<Rightarrow> n),
            pg_hasMore = (Task_count d (Some (p_id p)) (q_status q) (q_priority q)
               > (case q_offset q of None \<Rightarrow> 0 | Some n \<Rightarrow> n)
                 + (case q_limit q of None \<Rightarrow> 10 | Some n \<Rightarrow> n))\<rparr>)"
  using assms by (simp add: getTasks_def Let_def)

lemma listed_user:
  assumes "p_role p \<noteq> RAdmin"
  shows "listed_tasks (getTasks d p q) =
     page (case q_limit q of None \<Rightarrow> 10 | Some n \<Rightarrow> n)
          (case q_offset q of None \<Rightarrow> 0 | Some n \<Rightarrow> n)
       (newest_first (filter (\<lambda>t. t_user_id t = p_id p \<and> status_matches (q_status q) t
                                 \<and> priority_matches (q_priority q) t) (tasks d)))"
  by (simp add: getTasks_user [OF assms] listed_tasks_def json_def Task_findByUserId_def)

lemma listed_admin:
  assumes "p_role p = RAdmin"
  shows "listed_tasks (getTasks d p q) =
     page (case q_limit q of None \<Rightarrow> 10 | Some n \<Rightarrow> n)
          (case q_offset q of None \<Rightarrow> 0 | Some n \<Rightarrow> n)
       (newest_first (filter (\<lambda>t. status_matches (q_status q) t
                                 \<and> priority_matches (q_priority q) t) (tasks d)))"
  using assms
  by (simp add: getTasks_def Let_def listed_tasks_def json_def Task_findAll_def
        owner_matches_def map_tv_task_join)

lemma page_sample:
  "page 10 0 (newest_first (filter (\<lambda>t. t_user_id t = 2 \<and> status_matches None t
        \<and> priority_matches None t) (tasks db0))) = [task1]"
  "page 10 0 (newest_first (filter (\<lambda>t. status_matches None t
        \<and> priority_matches None t) (tasks db0))) = [task2, task1]"
  by (simp_all add: page_def newest_first_def status_matches_def priority_matches_def
        db0_def task1_def task2_def)

text \<open>
  Claim C4. For a principal who is not an administrator, \<open>getTasks\<close> answers with
  the list that \<open>Task.findByUserId\<close> returned for the principal's id, as it is: the
  page of the tasks whose owner is the principal (and that match the status and
  priority filters), newest first; so every task of the list is a stored task owned
  by the principal. For an administrator the list is the page of all tasks that match
  the filters, with no condition on the owner; without filters and with a page as
  long as the table it holds every stored task.
\<close>

theorem C4_task_list_scoping:
  "(p_role p \<noteq> RAdmin \<longrightarrow>
      (\<exists>pg. getTasks d p q =
         json 200 True None
           (TaskRows
              (Task_findByUserId d (p_id p)
                 \<lparr>o_limit = Some (case q_limit q of None \<Rightarrow> 10 | Some n \<Rightarrow> n),
                   o_offset = Some (case q_offset q of None \<Rightarrow> 0 | Some n \<Rightarrow> n),
                   o_status = q_status q, o_priority = q_priority q, o_user_id = None\<rparr>) pg))
      \<and> listed_tasks (getTasks d p q) =
          page (case q_limit q of None \<Rightarrow> 10 | Some n \<Rightarrow> n)
               (case q_offset q of None \<Rightarrow> 0 | Some n \<Rightarrow> n)
            (newest_first (filter (\<lambda>t. t_user_id t = p_id p \<and> status_matches (q_status q) t
                                      \<and> priority_matches (q_priority q) t) (tasks d)))
      \<and> (\<forall>t \<in> set (listed_tasks (getTasks d p q)). t_user_id t = p_id p \<and> t \<in> set (tasks d)))
   \<and> (p_role p = RAdmin \<longrightarrow>
      listed_tasks (getTasks d p q) =
          page (case q_limit q of None \<Rightarrow> 10 | Some n \<Rightarrow> n)
               (case q_offset q of None \<Rightarrow> 0 | Some n \<Rightarrow> n)
            (newest_first (filter (\<lambda>t. status_matches (q_status q) t
                                      \<and> priority_matches (q_priority q) t) (tasks d)))
      \<and> (q_status q = None \<and> q_priority q = None \<and> q_offset q = None
           \<and> q_limit q = Some (length (tasks d)) \<longrightarrow>
          set (listed_tasks (getTasks d p q)) = set (tasks d)))"
proof -
  have u: "\<forall>t \<in> set (listed_tasks (getTasks d p q)). t_user_id t = p_id p \<and> t \<in> set (tasks d)"
    if "p_role p \<noteq> RAdmin"
    using set_page [of "case q_limit q of None \<Rightarrow> 10 | Some n \<Rightarrow> n"
        "case q_offset q of None \<Rightarrow> 0 | Some n \<Rightarrow> n"
        "newest_first (filter (\<lambda>t. t_user_id t = p_id p \<and> status_matches (q_status q) t
                                 \<and> priority_matches (q_priority q) t) (tasks d))"]
    by (auto simp add: listed_user [OF that] set_newest_first)
  have a: "set (listed_tasks (getTasks d p q)) = set (tasks d)"
    if "p_role p = RAdmin" and "q_status q = None \<and> q_priority q = None \<and> q_offset q = None
           \<and> q_limit q = Some (length (tasks d))"
    using that(2)
    by (simp add: listed_admin [OF that(1)] status_matches_def priority_matches_def
          page_all newest_first_def)
  show ?thesis
    using getTasks_user [of p d q] listed_user [of p d q] listed_admin [of p d q] u a
    by blast
qed

theorem C4_task_list_scoping_witness:
  "p_role alice \<noteq> RAdmin \<and> p_role root = RAdmin
   \<and> listed_tasks (getTasks db0 alice q_all) = [task1]
   \<and> listed_tasks (getTasks db0 root q_all) = [task2, task1]
   \<and> t_user_id task1 = p_id alice \<and> t_user_id task2 \<noteq> p_id alice"
proof -
  have r: "p_role alice \<noteq> RAdmin" "p_role root = RAdmin" "p_id alice = 2"
    by (simp_all add: alice_def root_def)
  have q: "q_limit q_all = None" "q_offset q_all = None" "q_status q_all = None"
    "q_priority q_all = None"
    by (simp_all add: q_all_def)
  have o: "t_user_id task1 = p_id alice \<and> t_user_id task2 \<noteq> p_id alice"
    by (simp add: task1_def task2_def alice_def)
  from C4_task_list_scoping [of alice db0 q_all] r
  have "listed_tasks (getTasks db0 alice q_all) = [task1]"
    by (simp add: q page_sample)
  moreover from C4_task_list_scoping [of root db0 q_all] r
  have "listed_tasks (getTasks db0 root q_all) = [task2, task1]"
    by (simp add: q page_sample)
  ultimately show ?thesis using r o by simp
qed

section \<open>Reading, updating and deleting a task\<close>

lemma update_rows_total:
  assumes "\<And>r. sel r \<Longrightarrow> upd r = Inr (g r)"
  shows "update_rows sel upd rs = Inr (map (\<lambda>r. if sel r then g r else r) rs)"
  by (induction rs) (simp_all add: assms)

lemma status_of_str_str: "status_of_str (status_str s) = Some s"
  by (cases s) (simp_all add: status_of_str_def)

lemma priority_of_str_str: "priority_of_str (priority_str x) = Some x"
  by (cases x) (simp_all add: priority_of_str_def)

lemma catch_denied:
  "catch_not_found (JsError ''Task not found or unauthorized'') =
     json 404 False (Some ''Task not found or unauthorized'') NoData"
  by (simp add: catch_not_found_def)

lemma catch_bind: "catch_not_found bind_undefined = Next bind_undefined"
  by (simp add: catch_not_found_def bind_undefined_def)

lemma task_fields:
  "map (\<lambda>field. (field, lookup (task_updates body) field))
     (filter (\<lambda>key. key \<in> set allowedFields) (map fst (task_updates body)))
   = task_updates body"
  by (simp add: task_updates_def allowedFields_def lookup_def)

lemma task_fields_nonempty:
  "filter (\<lambda>key. key \<in> set allowedFields) (map fst (task_updates body)) \<noteq> []"
  by (simp add: task_updates_def allowedFields_def)

lemma bind_incomplete:
  assumes "b_title body = None \<or> b_description body = None \<or> b_status body = None
            \<or> b_priority body = None \<or> b_due_date body = None"
  shows "bind (task_updates body) = None"
proof -
  have "bind [(''title'', a), (''description'', b), (''status'', c), (''priority'', x),
              (''due_date'', y)] = None"
    if "a = None \<or> b = None \<or> c = None \<or> x = None \<or> y = None" for a b c x y
    using that by (cases a; cases b; cases c; cases x; cases y) simp_all
  with assms show ?thesis by (simp add: task_updates_def)
qed

lemma bind_complete:
  assumes "b_title body = Some ti" "b_description body = Some de" "b_status body = Some st"
    "b_priority body = Some pr" "b_due_date body = Some du"
  shows "bind (task_updates body) =
     Some [(''title'', ti), (''description'', de), (''status'', status_str st),
           (''priority'', priority_str pr), (''due_date'', du)]"
  using assms by (simp add: task_updates_def)

lemma set_task_fields_body:
  "set_task_fields [(''title'', ti), (''description'', de), (''status'', status_str st),
           (''priority'', priority_str pr), (''due_date'', du)] t =
     Inr (t\<lparr>t_title := ti, t_description := Some de, t_status := st, t_priority := pr,
            t_due_date := Some du\<rparr>)"
  by (simp add: set_task_field_def status_of_str_str priority_of_str_str)


lemma update_tasks_incomplete:
  assumes "b_title body = None \<or> b_description body = None \<or> b_status body = None
            \<or> b_priority body = None \<or> b_due_date body = None"
  shows "update_tasks d (task_updates body) i = (d, Inl bind_undefined)"
  by (simp add: update_tasks_def bind_incomplete [OF assms])

lemma update_tasks_complete:
  assumes "b_title body = Some ti" "b_description body = Some de" "b_status body = Some st"
    "b_priority body = Some pr" "b_due_date body = Some du"
  shows "update_tasks d (task_updates body) i =
     (d\<lparr>tasks := map (\<lambda>t. if t_id t = i
                          then t\<lparr>t_title := ti, t_description := Some de, t_status := st,
                                 t_priority := pr, t_due_date := Some du\<rparr>
                          else t) (tasks d)\<rparr>, Inr ())"
proof -
  have "update_rows (\<lambda>t. t_id t = i)
          (set_task_fields [(''title'', ti), (''description'', de), (''status'', status_str st),
             (''priority'', priority_str pr), (''due_date'', du)]) (tasks d)
        = Inr (map (\<lambda>t. if t_id t = i
                          then t\<lparr>t_title := ti, t_description := Some de, t_status := st,
                                 t_priority := pr, t_due_date := Some du\<rparr>
                          else t) (tasks d))"
    by (rule update_rows_total) (rule set_task_fields_body)
  then show ?thesis
    by (simp add: update_tasks_def bind_complete [OF assms])
qed

lemma find_rewritten:
  assumes "\<And>t. t_id (g t) = t_id t"
  shows "find (\<lambda>t. t_id t = i) (map (\<lambda>t. if t_id t = i then g t else t) ts)
           = map_option g (find (\<lambda>t. t_id t = i) ts)"
  by (induction ts) (simp_all add: assms)

lemma Task_findById_rewritten:
  assumes f: "Task_findById d i = Some tv"
    and g: "\<And>t. t_id (g t) = t_id t" "\<And>t. t_user_id (g t) = t_user_id t"
  shows "Task_findById (d\<lparr>tasks := map (\<lambda>t. if t_id t = i then g t else t) (tasks d)\<rparr>) i
           = Some (tv\<lparr>tv_task := g (tv_task tv)\<rparr>)"
proof -
  from f obtain t where t: "find (\<lambda>t. t_id t = i) (tasks d) = Some t" and tv: "tv = join_user d t"
    by (auto simp add: Task_findById_def)
  have "join_user (d\<lparr>tasks := map (\<lambda>t. if t_id t = i then g t else t) (tasks d)\<rparr>) (g t)
          = (join_user d t)\<lparr>tv_task := g t\<rparr>"
    by (simp add: join_user_def g split: option.splits)
  then show ?thesis
    by (simp add: Task_findById_def find_rewritten [of g, OF g(1)] t tv join_user_def
          split: option.splits)
qed

lemma not_owned_found:
  "Task_findById d i = Some tv \<Longrightarrow> not_owned d i uid = (t_user_id (tv_task tv) \<noteq> uid)"
  by (simp add: not_owned_def)

lemma not_owned_missing: "Task_findById d i = None \<Longrightarrow> not_owned d i uid"
  by (simp add: not_owned_def)

lemma Task_update_denied:
  assumes "\<not> isAdmin" and "not_owned d i uid"
  shows "Task_update d i uid updates isAdmin =
           (d, Inl (JsError ''Task not found or unauthorized''))"
  using assms by (simp add: Task_update_def)

lemma Task_update_permitted:
  assumes "isAdmin \<or> \<not> not_owned d i uid"
  shows "Task_update d i uid (task_updates body) isAdmin =
     (case update_tasks d (task_updates body) i of
        (d', Inl err) \<Rightarrow> (d', Inl err)
      | (d', Inr _) \<Rightarrow> (d', Inr (Task_findById d' i)))"
  using assms by (auto simp add: Task_update_def Let_def task_fields task_fields_nonempty)

lemma updateTask_denied:
  assumes "p_role p \<noteq> RAdmin" and "not_owned d i (p_id p)"
  shows "updateTask d p i body =
           (d, json 404 False (Some ''Task not found or unauthorized'') NoData)"
  using assms by (simp add: updateTask_def Task_update_denied catch_denied)

lemma updateTask_incomplete:
  assumes "p_role p = RAdmin \<or> \<not> not_owned d i (p_id p)"
    and "b_title body = None \<or> b_description body = None \<or> b_status body = None
            \<or> b_priority body = None \<or> b_due_date body = None"
  shows "updateTask d p i body = (d, Next bind_undefined)"
  using assms(1)
  by (simp add: updateTask_def Task_update_permitted update_tasks_incomplete [OF assms(2)]
        catch_bind)

lemma updateTask_complete:
  assumes "p_role p = RAdmin \<or> \<not> not_owned d i (p_id p)"
    and "b_title body = Some ti" "b_description body = Some de" "b_status body = Some st"
    "b_priority body = Some pr" "b_due_date body = Some du"
  shows "updateTask d p i body =
     (d\<lparr>tasks := map (\<lambda>t. if t_id t = i
                          then t\<lparr>t_title := ti, t_description := Some de, t_status := st,
                                 t_priority := pr, t_due_date := Some du\<rparr>
                          else t) (tasks d)\<rparr>,
      json 200 True (Some ''Task updated successfully'')
        (TaskData (Task_findById
           (d\<lparr>tasks := map (\<lambda>t. if t_id t = i
                          then t\<lparr>t_title := ti, t_description := Some de, t_status := st,
                                 t_priority := pr, t_due_date := Some du\<rparr>
                          else t) (tasks d)\<rparr>) i)))"
  using assms(1)
  by (simp add: updateTask_def Task_update_permitted update_tasks_complete [OF assms(2-)])

lemma deleteTask_denied:
  assumes "p_role p \<noteq> RAdmin" and "not_owned d i (p_id p)"
  shows "deleteTask d p i =
           (d, json 404 False (Some ''Task not found or unauthorized'') NoData)"
  using assms by (simp add: deleteTask_def Task_delete_def catch_denied)

lemma findById_rows:
  "(Task_findById d i = None) = (\<not> (\<exists>t \<in> set (tasks d). t_id t = i))"
  by (auto simp add: Task_findById_def find_None_iff)

lemma deleteTask_permitted:
  assumes "p_role p = RAdmin \<or> \<not> not_owned d i (p_id p)"
    and "Task_findById d i = Some tv"
  shows "deleteTask d p i =
     (d\<lparr>tasks := filter (\<lambda>t. t_id t \<noteq> i) (tasks d)\<rparr>,
      json 200 True (Some ''Task deleted successfully'') NoData)"
proof -
  from assms(2) have "\<exists>t \<in> set (tasks d). t_id t = i"
    using findById_rows [of d i] by simp
  then have "filter (\<lambda>t. t_id t = i) (tasks d) \<noteq> []"
    by (simp add: filter_empty_conv)
  then have "length (filter (\<lambda>t. t_id t = i) (tasks d)) > 0" by simp
  with assms(1) show ?thesis
    by (auto simp add: deleteTask_def Task_delete_def delete_tasks_def)
qed


lemma getTask_found:
  assumes "Task_findById d i = Some tv"
  shows "getTask d p i =
     (if t_user_id (tv_task tv) \<noteq> p_id p \<and> p_role p \<noteq> RAdmin
        then json 403 False (Some ''Not authorized to access this task'') NoData
      else json 200 True None (TaskData (Some tv)))"
  by (simp add: getTask_def assms)

lemma getTask_missing:
  assumes "Task_findById d i = None"
  shows "getTask d p i = json 404 False (Some ''Task not found'') NoData"
  by (simp add: getTask_def assms)

lemma sample_found: "Task_findById db0 1 = Some (join_user db0 task1)"
  by (simp add: Task_findById_def db0_def task1_def)

lemma sample_missing: "Task_findById db0 9 = None"
  by (simp add: Task_findById_def db0_def task1_def task2_def)

lemma sample_principals:
  "p_role root = RAdmin" "p_role alice \<noteq> RAdmin" "p_role bob \<noteq> RAdmin"
  "t_user_id (tv_task (join_user db0 task1)) = p_id alice"
  "t_user_id (tv_task (join_user db0 task1)) \<noteq> p_id bob"
  "t_user_id (tv_task (join_user db0 task1)) \<noteq> p_id root"
  by (simp_all add: root_def alice_def bob_def tv_task_join task1_def)

lemma sample_full_body:
  "b_title full_body = Some ''T1 done'' \<and> b_description full_body = Some ''all of it''
   \<and> b_status full_body = Some Completed \<and> b_priority full_body = Some Low
   \<and> b_due_date full_body = Some ''2026-01-01''"
  by (simp add: full_body_def)





text \<open>
  The rule of access. For a stored task and any principal, each of \<open>getTask\<close>,
  \<open>updateTask\<close> and \<open>deleteTask\<close> refuses the principal exactly when the principal
  is neither an administrator nor the owner of the task: the refusal is 403 for the
  read and the 404 "Task not found or unauthorized" for the update and the delete.
  An administrator or the owner reads the task (200), deletes it (200, the row is
  gone), and updates it (200, with the rewritten row) when the body supplies each of
  the five fields.
\<close>

lemma task_access_rule:
  assumes found: "Task_findById d i = Some tv"
  shows "((getTask d p i = json 403 False (Some ''Not authorized to access this task'') NoData)
            = (\<not> (p_role p = RAdmin \<or> t_user_id (tv_task tv) = p_id p)))
       \<and> ((snd (updateTask d p i body)
              = json 404 False (Some ''Task not found or unauthorized'') NoData)
            = (\<not> (p_role p = RAdmin \<or> t_user_id (tv_task tv) = p_id p)))
       \<and> ((snd (deleteTask d p i)
              = json 404 False (Some ''Task not found or unauthorized'') NoData)
            = (\<not> (p_role p = RAdmin \<or> t_user_id (tv_task tv) = p_id p)))
       \<and> (p_role p = RAdmin \<or> t_user_id (tv_task tv) = p_id p \<longrightarrow>
            getTask d p i = json 200 True None (TaskData (Some tv))
          \<and> deleteTask d p i =
              (d\<lparr>tasks := filter (\<lambda>t. t_id t \<noteq> i) (tasks d)\<rparr>,
               json 200 True (Some ''Task deleted successfully'') NoData)
          \<and> (b_title body = Some ti \<and> b_description body = Some de \<and> b_status body = Some st
               \<and> b_priority body = Some pr \<and> b_due_date body = Some du \<longrightarrow>
              updateTask d p i body =
                (d\<lparr>tasks := map (\<lambda>t. if t_id t = i
                          then t\<lparr>t_title := ti, t_description := Some de, t_status := st,
                                 t_priority := pr, t_due_date := Some du\<rparr>
                          else t) (tasks d)\<rparr>,
                 json 200 True (Some ''Task updated successfully'')
                   (TaskData (Some (tv\<lparr>tv_task := (tv_task tv)\<lparr>t_title := ti,
                       t_description := Some de, t_status := st, t_priority := pr,
                       t_due_date := Some du\<rparr>\<rparr>))))))"
proof (cases "p_role p = RAdmin \<or> t_user_id (tv_task tv) = p_id p")
  case True
  then have perm: "p_role p = RAdmin \<or> \<not> not_owned d i (p_id p)"
    by (auto simp add: not_owned_found [OF found])
  have g: "getTask d p i = json 200 True None (TaskData (Some tv))"
    using True by (auto simp add: getTask_found [OF found])
  have del: "deleteTask d p i =
              (d\<lparr>tasks := filter (\<lambda>t. t_id t \<noteq> i) (tasks d)\<rparr>,
               json 200 True (Some ''Task deleted successfully'') NoData)"
    using perm found by (rule deleteTask_permitted)
  have upd: "updateTask d p i body =
                (d\<lparr>tasks := map (\<lambda>t. if t_id t = i
                          then t\<lparr>t_title := ti, t_description := Some de, t_status := st,
                                 t_priority := pr, t_due_date := Some du\<rparr>
                          else t) (tasks d)\<rparr>,
                 json 200 True (Some ''Task updated successfully'')
                   (TaskData (Some (tv\<lparr>tv_task := (tv_task tv)\<lparr>t_title := ti,
                       t_description := Some de, t_status := st, t_priority := pr,
                       t_due_date := Some du\<rparr>\<rparr>))))"
    if c: "b_title body = Some ti" "b_description body = Some de" "b_status body = Some st"
      "b_priority body = Some pr" "b_due_date body = Some du"
    by (simp add: updateTask_complete [OF perm c]
          Task_findById_rewritten [OF found, where g = "\<lambda>t. t\<lparr>t_title := ti,
             t_description := Some de, t_status := st, t_priority := pr,
             t_due_date := Some du\<rparr>"])
  have nu: "snd (updateTask d p i body)
       \<noteq> json 404 False (Some ''Task not found or unauthorized'') NoData"
  proof (cases "b_title body = None \<or> b_description body = None \<or> b_status body = None
            \<or> b_priority body = None \<or> b_due_date body = None")
    case True
    then show ?thesis
      by (simp add: updateTask_incomplete [OF perm True] json_def)
  next
    case False
    then obtain ti' de' st' pr' du' where c: "b_title body = Some ti'"
       "b_description body = Some de'" "b_status body = Some st'"
       "b_priority body = Some pr'" "b_due_date body = Some du'"
      by auto
    show ?thesis
      by (simp add: updateTask_complete [OF perm c] json_inject)
  qed
  from True g del upd nu show ?thesis
    by (simp add: json_inject)
next
  case False
  then have r: "p_role p \<noteq> RAdmin" and o: "not_owned d i (p_id p)"
    by (auto simp add: not_owned_found [OF found])
  from False show ?thesis
    by (simp add: getTask_found [OF found] updateTask_denied [OF r o]
          deleteTask_denied [OF r o])
qed

text \<open>
  Claim C5 on the code. The refusals follow the rule, but an administrator does not
  succeed on every update: \<open>updateTask\<close> builds \<open>updates\<close> with all five keys, so a
  field that the body leaves out (the validator makes each of them optional) is
  bound as \<open>undefined\<close>, and the driver throws before any SQL runs. In the sample
  deployment the administrator, and alice who owns task 1, send a body that sets
  the status only: the error goes to \<open>next\<close> and the task is not updated. With the
  body that supplies all five fields the administrator's update is answered 200.
\<close>

theorem C5_partial_update_fails:
  "p_role root = RAdmin
   \<and> Task_findById db0 1 = Some (join_user db0 task1)
   \<and> t_user_id (tv_task (join_user db0 task1)) = p_id alice
   \<and> b_status status_body = Some Completed
   \<and> updateTask db0 root 1 status_body = (db0, Next bind_undefined)
   \<and> updateTask db0 alice 1 status_body = (db0, Next bind_undefined)
   \<and> snd (updateTask db0 root 1 full_body) =
        json 200 True (Some ''Task updated successfully'')
          (TaskData (Some ((join_user db0 task1)\<lparr>tv_task := (tv_task (join_user db0 task1))
             \<lparr>t_title := ''T1 done'', t_description := Some ''all of it'',
              t_status := Completed, t_priority := Low,
              t_due_date := Some ''2026-01-01''\<rparr>\<rparr>)))"
proof -
  have i: "b_title status_body = None \<or> b_description status_body = None
      \<or> b_status status_body = None \<or> b_priority status_body = None
      \<or> b_due_date status_body = None"
    and c: "b_status status_body = Some Completed"
    by (simp_all add: status_body_def)
  have pr: "p_role root = RAdmin \<or> \<not> not_owned db0 1 (p_id root)"
    by (simp add: sample_principals(1))
  have pa: "p_role alice = RAdmin \<or> \<not> not_owned db0 1 (p_id alice)"
    using not_owned_found [OF sample_found, of "p_id alice"] sample_principals(4) by simp
  note r = updateTask_incomplete [OF pr i]
  note a = updateTask_incomplete [OF pa i]
  from task_access_rule [OF sample_found, of root full_body "''T1 done''" "''all of it''"
      Completed Low "''2026-01-01''"] sample_principals sample_full_body
  have f: "snd (updateTask db0 root 1 full_body) =
        json 200 True (Some ''Task updated successfully'')
          (TaskData (Some ((join_user db0 task1)\<lparr>tv_task := (tv_task (join_user db0 task1))
             \<lparr>t_title := ''T1 done'', t_description := Some ''all of it'',
              t_status := Completed, t_priority := Low,
              t_due_date := Some ''2026-01-01''\<rparr>\<rparr>)))"
    by simp
  from r a f c sample_found sample_principals(1,4) show ?thesis by blast
qed

text \<open>
  Claim C1, as stated, fails for the read. In the sample deployment task 1 belongs to
  alice and no task has id 9: bob, who is not an administrator, is answered 403 "Not
  authorized to access this task" for the first and 404 "Task not found" for the
  second.
\<close>

theorem C1_read_denial_counterexample:
  "Task_findById db0 1 = Some (join_user db0 task1)
   \<and> t_user_id task1 = p_id alice \<and> p_id bob \<noteq> p_id alice \<and> p_role bob \<noteq> RAdmin
   \<and> Task_findById db0 9 = None
   \<and> getTask db0 bob 1 = json 403 False (Some ''Not authorized to access this task'') NoData
   \<and> getTask db0 bob 9 = json 404 False (Some ''Task not found'') NoData
   \<and> getTask db0 bob 1 \<noteq> getTask db0 bob 9"
proof -
  have f: "Task_findById db0 1 = Some (join_user db0 task1)"
    by (simp add: Task_findById_def db0_def task1_def)
  have n: "Task_findById db0 9 = None"
    by (simp add: Task_findById_def db0_def task1_def task2_def)
  have p: "t_user_id task1 = p_id alice \<and> p_id bob \<noteq> p_id alice \<and> p_role bob \<noteq> RAdmin"
    "t_user_id task1 \<noteq> p_id bob"
    by (simp_all add: task1_def alice_def bob_def)
  have a: "getTask db0 bob 1 = json 403 False (Some ''Not authorized to access this task'') NoData"
    using p getTask_found [OF f, of bob] by (simp add: tv_task_join)
  have b: "getTask db0 bob 9 = json 404 False (Some ''Task not found'') NoData"
    by (rule getTask_missing [OF n])
  from f n p a b show ?thesis by (simp add: json_inject)
qed

text \<open>
  Claim C1, amended. For a task owned by somebody else and a principal who is not an
  administrator, \<open>updateTask\<close> and \<open>deleteTask\<close> answer exactly as they do for an id
  under which no task is stored: 404 with the message "Task not found or
  unauthorized", the store left as it was. \<open>getTask\<close> answers 403 "Not authorized to
  access this task" for the former and 404 "Task not found" for the latter.
\<close>

theorem C1_task_denial_amended:
  assumes "Task_findById d i = Some tv" and "t_user_id (tv_task tv) \<noteq> p_id p"
    and "p_role p \<noteq> RAdmin" and "Task_findById d j = None"
  shows "updateTask d p i body =
           (d, json 404 False (Some ''Task not found or unauthorized'') NoData)
       \<and> updateTask d p j body =
           (d, json 404 False (Some ''Task not found or unauthorized'') NoData)
       \<and> deleteTask d p i =
           (d, json 404 False (Some ''Task not found or unauthorized'') NoData)
       \<and> deleteTask d p j =
           (d, json 404 False (Some ''Task not found or unauthorized'') NoData)
       \<and> getTask d p i = json 403 False (Some ''Not authorized to access this task'') NoData
       \<and> getTask d p j = json 404 False (Some ''Task not found'') NoData"
proof -
  have i: "not_owned d i (p_id p)"
    using assms(2) by (simp add: not_owned_found [OF assms(1)])
  have j: "not_owned d j (p_id p)"
    by (rule not_owned_missing [OF assms(4)])
  show ?thesis
    using assms(2,3)
    by (simp add: updateTask_denied [OF assms(3) i] updateTask_denied [OF assms(3) j]
          deleteTask_denied [OF assms(3) i] deleteTask_denied [OF assms(3) j]
          getTask_found [OF assms(1)] getTask_missing [OF assms(4)])
qed

theorem C1_task_denial_amended_witness:
  "updateTask db0 bob 1 full_body =
           (db0, json 404 False (Some ''Task not found or unauthorized'') NoData)
   \<and> updateTask db0 bob 9 full_body =
           (db0, json 404 False (Some ''Task not found or unauthorized'') NoData)
   \<and> deleteTask db0 bob 1 =
           (db0, json 404 False (Some ''Task not found or unauthorized'') NoData)
   \<and> deleteTask db0 bob 9 =
           (db0, json 404 False (Some ''Task not found or unauthorized'') NoData)
   \<and> getTask db0 bob 1 = json 403 False (Some ''Not authorized to access this task'') NoData
   \<and> getTask db0 bob 9 = json 404 False (Some ''Task not found'') NoData"
  by (rule C1_task_denial_amended [OF sample_found sample_principals(5) sample_principals(3) sample_missing])




end
